theory Spec2Isabelle
  imports Main "HOL-Library.Word"
begin

unbundle bit_operations_syntax

section \<open>The trace queue of \<^verbatim>\<open>slave.c\<close>\<close>

text \<open>
  The firmware keeps its diagnostic records in a global array-based cyclic queue.
  A \<^verbatim>\<open>MESSAGE\<close> is a struct holding \<^verbatim>\<open>char data[MESSAGE_SIZE]\<close>; it is modelled
  as the list of its bytes. The queue is the global struct with the array
  \<^verbatim>\<open>messages[QUEUE_SIZE]\<close> and the three \<^verbatim>\<open>int\<close> fields \<^verbatim>\<open>begin\<close>, \<^verbatim>\<open>end\<close> and
  \<^verbatim>\<open>current_load\<close> (the first two are renamed \<open>q_begin\<close> and \<open>q_end\<close>, the C names
  being reserved words here).

  The \<^verbatim>\<open>int\<close> fields are modelled as \<open>int\<close>. An array access with an index outside
  \<open>0 ..< QUEUE_SIZE\<close> is undefined behaviour in C and is the result
  \<open>Inl OutOfBounds\<close> in the model; every arithmetic step of the queue code is
  reached only after such a check has passed on the same field, or under a guard
  that bounds it, so no 32-bit overflow can occur before a fault, and C's \<^verbatim>\<open>%\<close>
  agrees with \<open>mod\<close> on the non-negative operand it gets.
\<close>

type_synonym MESSAGE = string

definition MESSAGE_SIZE :: nat where
  "MESSAGE_SIZE = 64"

definition QUEUE_SIZE :: nat where
  "QUEUE_SIZE = 64"

text \<open>\<^verbatim>\<open>sizeof(int)\<close> on the RP2040 target (32-bit ARM, ILP32).\<close>

definition sizeof_int :: nat where
  "sizeof_int = 4"

definition NUL :: char where
  "NUL = CHR 0x00"

definition zero_message :: MESSAGE where
  "zero_message = replicate MESSAGE_SIZE NUL"

record queue_t =
  messages :: "MESSAGE list"
  q_begin :: int
  q_end :: int
  current_load :: int

datatype fault = OutOfBounds | BufferOverflow | InvalidBool

text \<open>
  \<^verbatim>\<open>memset(&queue.messages[i], 0, n)\<close>: the \<open>n\<close> bytes starting at the first byte of
  element \<open>i\<close> become zero. Each element occupies \<open>MESSAGE_SIZE\<close> bytes, so the call
  covers \<open>n div MESSAGE_SIZE\<close> whole elements and the first \<open>n mod MESSAGE_SIZE\<close>
  bytes of the element after them.
\<close>

definition memset_messages :: "MESSAGE list \<Rightarrow> nat \<Rightarrow> nat \<Rightarrow> MESSAGE list" where
  "memset_messages ms i n =
     map (\<lambda>j. if i \<le> j \<and> j < i + n div MESSAGE_SIZE then zero_message
              else if j = i + n div MESSAGE_SIZE
                then replicate (n mod MESSAGE_SIZE) NUL @ drop (n mod MESSAGE_SIZE) (ms ! j)
              else ms ! j)
         [0 ..< length ms]"

text \<open>\<^verbatim>\<open>bool enque(MESSAGE* message)\<close>: the result is the returned flag and the queue.\<close>

definition enque :: "MESSAGE \<Rightarrow> queue_t \<Rightarrow> fault + (bool \<times> queue_t)" where
  "enque message q =
     (if current_load q < int QUEUE_SIZE then
        (let q1 = (if q_end q = int QUEUE_SIZE then q\<lparr>q_end := 0\<rparr> else q) in
         if 0 \<le> q_end q1 \<and> q_end q1 < int QUEUE_SIZE then
           Inr (True, q1\<lparr>messages := (messages q1)[nat (q_end q1) := message],
                         q_end := q_end q1 + 1,
                         current_load := current_load q1 + 1\<rparr>)
         else Inl OutOfBounds)
      else Inr (False, q))"

text \<open>
  \<^verbatim>\<open>void init_queue()\<close>. The byte count given to \<^verbatim>\<open>memset\<close> is
  \<^verbatim>\<open>QUEUE_SIZE * sizeof(MESSAGE_SIZE)\<close>, and \<^verbatim>\<open>MESSAGE_SIZE\<close> is the \<^verbatim>\<open>int\<close> constant 64.
\<close>

definition init_queue :: "queue_t \<Rightarrow> queue_t" where
  "init_queue q =
     (let q1 = q\<lparr>q_begin := 0\<rparr>;
          q2 = q1\<lparr>q_end := 0\<rparr>;
          q3 = q2\<lparr>current_load := 0\<rparr>
      in q3\<lparr>messages := memset_messages (messages q3) 0 (QUEUE_SIZE * sizeof_int)\<rparr>)"

text \<open>
  \<^verbatim>\<open>bool deque(MESSAGE* message)\<close>. The out-parameter is written only when the
  function returns true: the result \<open>Some m\<close> stands for "returns true, \<^verbatim>\<open>*message\<close> is
  \<open>m\<close>", and \<open>None\<close> for "returns false, \<^verbatim>\<open>*message\<close> untouched".
\<close>

definition deque :: "queue_t \<Rightarrow> fault + (MESSAGE option \<times> queue_t)" where
  "deque q =
     (if current_load q > 0 then
        (if 0 \<le> q_begin q \<and> q_begin q < int QUEUE_SIZE then
           Inr (Some (messages q ! nat (q_begin q)),
                q\<lparr>messages := memset_messages (messages q) (nat (q_begin q)) MESSAGE_SIZE,
                  q_begin := (q_begin q + 1) mod int QUEUE_SIZE,
                  current_load := current_load q - 1\<rparr>)
         else Inl OutOfBounds)
      else Inr (None, q))"

text \<open>The queue object as C's static storage holds it before \<^verbatim>\<open>main\<close> runs: all zero.\<close>

definition queue_static :: queue_t where
  "queue_static =
     \<lparr>messages = replicate QUEUE_SIZE zero_message, q_begin = 0, q_end = 0, current_load = 0\<rparr>"

text \<open>
  A run of queue operations from the producer and the consumer, in the order they
  happen, with the value each call returns.
\<close>

datatype queue_op = Enque MESSAGE | Deque

datatype queue_res = Enqued bool | Dequed "MESSAGE option"

definition queue_step :: "queue_op \<Rightarrow> queue_t \<Rightarrow> fault + (queue_res \<times> queue_t)" where
  "queue_step op q =
     (case op of
        Enque message \<Rightarrow>
          (case enque message q of Inl e \<Rightarrow> Inl e | Inr (ok, q') \<Rightarrow> Inr (Enqued ok, q'))
      | Deque \<Rightarrow>
          (case deque q of Inl e \<Rightarrow> Inl e | Inr (r, q') \<Rightarrow> Inr (Dequed r, q')))"

fun run_queue :: "queue_op list \<Rightarrow> queue_t \<Rightarrow> fault + (queue_res list \<times> queue_t)" where
  "run_queue [] q = Inr ([], q)"
| "run_queue (op # ops) q =
     (case queue_step op q of
        Inl e \<Rightarrow> Inl e
      | Inr (r, q') \<Rightarrow>
          (case run_queue ops q' of Inl e \<Rightarrow> Inl e | Inr (rs, q'') \<Rightarrow> Inr (r # rs, q'')))"

text \<open>
  The specification's queue, in its own words: a bounded first-in first-out list.
  \<open>enqueue\<close> fails and drops the record at capacity, \<open>dequeue\<close> hands out the oldest
  record or nothing.
\<close>

definition fifo_step :: "queue_op \<Rightarrow> MESSAGE list \<Rightarrow> queue_res \<times> MESSAGE list" where
  "fifo_step op xs =
     (case op of
        Enque message \<Rightarrow>
          (if length xs < QUEUE_SIZE then (Enqued True, xs @ [message]) else (Enqued False, xs))
      | Deque \<Rightarrow> (case xs of [] \<Rightarrow> (Dequed None, []) | x # xs' \<Rightarrow> (Dequed (Some x), xs')))"

fun fifo_run :: "queue_op list \<Rightarrow> MESSAGE list \<Rightarrow> queue_res list \<times> MESSAGE list" where
  "fifo_run [] xs = ([], xs)"
| "fifo_run (op # ops) xs =
     (let (r, xs') = fifo_step op xs; (rs, xs'') = fifo_run ops xs' in (r # rs, xs''))"

text \<open>The records a queue holds, oldest first: \<open>current_load\<close> slots from \<open>begin\<close> on, cyclically.\<close>

definition contents :: "queue_t \<Rightarrow> MESSAGE list" where
  "contents q =
     map (\<lambda>i. messages q ! ((nat (q_begin q) + i) mod QUEUE_SIZE)) [0 ..< nat (current_load q)]"

text \<open>How many calls of a run stored a record, and how many handed one out.\<close>

definition enqueued_count :: "queue_res list \<Rightarrow> nat" where
  "enqueued_count rs = length (filter (\<lambda>r. r = Enqued True) rs)"

definition dequeued_count :: "queue_res list \<Rightarrow> nat" where
  "dequeued_count rs = length (filter (\<lambda>r. case r of Dequed (Some m) \<Rightarrow> True | _ \<Rightarrow> False) rs)"

text \<open>
  The consistency of the three counters with each other and with the array: the state
  every run from an initialised queue stays in.
\<close>

definition queue_inv :: "queue_t \<Rightarrow> bool" where
  "queue_inv q \<longleftrightarrow>
     length (messages q) = QUEUE_SIZE
     \<and> 0 \<le> q_begin q \<and> q_begin q < int QUEUE_SIZE
     \<and> 0 \<le> q_end q \<and> q_end q \<le> int QUEUE_SIZE
     \<and> 0 \<le> current_load q \<and> current_load q \<le> int QUEUE_SIZE
     \<and> (q_begin q + current_load q) mod int QUEUE_SIZE = q_end q mod int QUEUE_SIZE"

section \<open>The device: registers, status flags and the hardware seen from the handler\<close>

subsection \<open>Formatting of trace records\<close>

text \<open>
  The conversions \<^verbatim>\<open>%02d\<close>, \<^verbatim>\<open>%01d\<close>, \<^verbatim>\<open>%02x\<close>, \<^verbatim>\<open>%01x\<close> and \<^verbatim>\<open>%02lx\<close> of \<^verbatim>\<open>sprintf\<close>, on the
  non-negative values the handler prints: the digits of the number, padded with zeros
  on the left to the minimal width.
\<close>

definition digit_char :: "nat \<Rightarrow> char" where
  "digit_char d = ''0123456789abcdef'' ! d"

fun dec_digits :: "nat \<Rightarrow> string" where
  "dec_digits n =
     (if n < 10 then [digit_char n] else dec_digits (n div 10) @ [digit_char (n mod 10)])"

fun hex_digits :: "nat \<Rightarrow> string" where
  "hex_digits n =
     (if n < 16 then [digit_char n] else hex_digits (n div 16) @ [digit_char (n mod 16)])"

declare dec_digits.simps [simp del]

declare hex_digits.simps [simp del]

definition pad_zero :: "nat \<Rightarrow> string \<Rightarrow> string" where
  "pad_zero w s = replicate (w - length s) CHR ''0'' @ s"

definition fmt_02d :: "nat \<Rightarrow> string" where
  "fmt_02d n = pad_zero 2 (dec_digits n)"

definition fmt_01d :: "nat \<Rightarrow> string" where
  "fmt_01d n = pad_zero 1 (dec_digits n)"

definition fmt_02x :: "nat \<Rightarrow> string" where
  "fmt_02x n = pad_zero 2 (hex_digits n)"

definition fmt_01x :: "nat \<Rightarrow> string" where
  "fmt_01x n = pad_zero 1 (hex_digits n)"

text \<open>The text of a record: its bytes up to the terminating zero.\<close>

definition c_str :: "MESSAGE \<Rightarrow> string" where
  "c_str message = takeWhile (\<lambda>c. c \<noteq> NUL) message"

subsection \<open>Hardware: calls issued and values read\<close>

text \<open>
  The GPIO, pad, I2C, watchdog and timer drivers belong to the Pico SDK, not to this
  program. What the program does to the hardware is the sequence of driver calls it
  issues, kept in order in \<open>hw_calls\<close>; the hardware is unchanged by a piece of code
  exactly when that code issues no call. What the drivers return is an input of
  the program, the record \<open>env_t\<close>. Bytes handed to \<^verbatim>\<open>i2c_write_byte\<close> go to the bus
  master and are kept apart in \<open>i2c_sent\<close>; lines printed on \<^verbatim>\<open>stdout\<close> are in
  \<open>stdout\<close>.
\<close>

datatype gpio_drive_strength =
  GPIO_DRIVE_STRENGTH_2MA | GPIO_DRIVE_STRENGTH_4MA | GPIO_DRIVE_STRENGTH_8MA
  | GPIO_DRIVE_STRENGTH_12MA

datatype gpio_function = GPIO_FUNC_SIO | GPIO_FUNC_I2C

datatype hw_call =
    Gpio_put nat bool
  | Gpio_put_masked "32 word" "32 word"
  | Gpio_set_dir nat bool
  | Gpio_set_dir_masked "32 word" "32 word"
  | Gpio_set_drive_strength nat gpio_drive_strength
  | Gpio_pull_up nat
  | Gpio_pull_down nat
  | Gpio_disable_pulls nat
  | Hw_write_masked_pads_io nat "32 word" "32 word"
  | Gpio_init nat
  | Gpio_init_mask "32 word"
  | Gpio_set_function nat gpio_function
  | I2c_init nat
  | I2c_slave_init "8 word"
  | Stdio_init_all
  | Watchdog_update
  | Sleep_ms nat

text \<open>The SDK's numbering of the drive strengths, as \<^verbatim>\<open>gpio_get_drive_strength\<close> returns them.\<close>

definition drive_strength_value :: "gpio_drive_strength \<Rightarrow> 8 word" where
  "drive_strength_value d =
     (case d of GPIO_DRIVE_STRENGTH_2MA \<Rightarrow> 0 | GPIO_DRIVE_STRENGTH_4MA \<Rightarrow> 1
      | GPIO_DRIVE_STRENGTH_8MA \<Rightarrow> 2 | GPIO_DRIVE_STRENGTH_12MA \<Rightarrow> 3)"

text \<open>
  The values the environment supplies during one call: the byte waiting in the I2C
  receive FIFO, the readings of the GPIO and pad registers, the watchdog's reset
  cause, and \<open>stack_rec\<close>, the indeterminate initial bytes of the automatic variable
  \<^verbatim>\<open>MESSAGE rec\<close>, which is never initialised and is copied whole into the queue.
\<close>

record env_t =
  i2c_read_byte :: "8 word"
  gpio_get_all :: "32 word"
  gpio_get :: "nat \<Rightarrow> bool"
  gpio_get_dir :: "nat \<Rightarrow> bool"
  gpio_get_drive_strength :: "nat \<Rightarrow> gpio_drive_strength"
  gpio_is_pulled_up :: "nat \<Rightarrow> bool"
  gpio_is_pulled_down :: "nat \<Rightarrow> bool"
  pads_bank0_io :: "nat \<Rightarrow> 32 word"
  watchdog_caused_reboot :: bool
  stack_rec :: MESSAGE

text \<open>
  Constants of headers that are not part of the sources at hand: the two version
  numbers of \<^verbatim>\<open>userconfig.h\<close> and the board's LED pin. They are parameters of the model.
\<close>

record userconfig =
  IO_SLAVE_VERSION_MAJOR :: int
  IO_SLAVE_VERSION_MINOR :: int
  PICO_DEFAULT_LED_PIN :: nat

subsection \<open>Constants of \<^verbatim>\<open>slave.c\<close>\<close>

definition I2C_OFFSET_ADDRESS :: "8 word" where
  "I2C_OFFSET_ADDRESS = 0x20"

definition PICO_PORT_ADDRESS :: "8 word" where
  "PICO_PORT_ADDRESS = 0x21"

definition REG_STATUS :: nat where
  "REG_STATUS = 100"

definition I2C_BAUDRATE :: nat where
  "I2C_BAUDRATE = 100000"

definition I2C_SLAVE_ADDRESS_IO0 :: nat where
  "I2C_SLAVE_ADDRESS_IO0 = 26"

definition I2C_SLAVE_ADDRESS_IO1 :: nat where
  "I2C_SLAVE_ADDRESS_IO1 = 27"

definition I2C_SLAVE_SDA_PIN :: nat where
  "I2C_SLAVE_SDA_PIN = 20"

definition I2C_SLAVE_SCL_PIN :: nat where
  "I2C_SLAVE_SCL_PIN = 21"

definition GPIO_BOOT_MASK :: "32 word" where
  "GPIO_BOOT_MASK = 0b00011100010011111111111111111111"

definition PORT0_MASK :: "32 word" where
  "PORT0_MASK = 0xff"

definition PORT1_MASK :: "32 word" where
  "PORT1_MASK = 0b111111110000000000"

definition PORT1_OFFSET :: nat where
  "PORT1_OFFSET = 10"

definition GPIO_SET_DIR_MASK :: "32 word" where
  "GPIO_SET_DIR_MASK = 0b0011110001111111111111111111111"

definition GPIO_SLV1_DIR_MASK :: "32 word" where
  "GPIO_SLV1_DIR_MASK = 0b00010000000000000000000000000000"

definition GPIO_SLV1_OUT_MASK :: "32 word" where
  "GPIO_SLV1_OUT_MASK = 0x00"

definition GPIO_SLV2_DIR_MASK :: "32 word" where
  "GPIO_SLV2_DIR_MASK = 0b0011110001111111111111111111111"

definition GPIO_SLV2_OUT_MASK :: "32 word" where
  "GPIO_SLV2_OUT_MASK = 0x00"

definition GPIO_BANK0_MASK :: "32 word" where
  "GPIO_BANK0_MASK = 0xff"

definition GPIO_BANK1_MASK :: "32 word" where
  "GPIO_BANK1_MASK = 0b00000000000000111111110000000000"

subsection \<open>Global state\<close>

text \<open>
  The union \<^verbatim>\<open>status\<close>: eight one-bit flags, and \<^verbatim>\<open>all_flags\<close>, the same byte read
  whole. The compiler of the target allocates bit-fields from the least significant
  bit, so \<^verbatim>\<open>cfg\<close> is bit 0 and \<^verbatim>\<open>sparesD\<close> bit 7. The flags carry the prefix
  \<open>flag_\<close>, \<^verbatim>\<open>cmd\<close> being also the handler's variable.
\<close>

record status_t =
  flag_cfg :: bool
  flag_cmd :: bool
  flag_error :: bool
  flag_watch :: bool
  flag_sparesA :: bool
  flag_sparesB :: bool
  flag_sparesC :: bool
  flag_sparesD :: bool

definition all_flags :: "status_t \<Rightarrow> 8 word" where
  "all_flags st =
     of_bool (flag_cfg st) + 2 * of_bool (flag_cmd st) + 4 * of_bool (flag_error st)
     + 8 * of_bool (flag_watch st) + 16 * of_bool (flag_sparesA st)
     + 32 * of_bool (flag_sparesB st) + 64 * of_bool (flag_sparesC st)
     + 128 * of_bool (flag_sparesD st)"

text \<open>\<^verbatim>\<open>status.all_flags = 0\<close>\<close>

definition status_clear :: status_t where
  "status_clear =
     \<lparr>flag_cfg = False, flag_cmd = False, flag_error = False, flag_watch = False,
      flag_sparesA = False, flag_sparesB = False, flag_sparesC = False,
      flag_sparesD = False\<rparr>"

text \<open>
  The struct \<^verbatim>\<open>context\<close> (here \<open>ctx\<close>): the register file \<^verbatim>\<open>reg[128]\<close> as the list of its
  cells, the selected address, and the flag telling that an address byte has been
  received in the current transaction.
\<close>

record context_t =
  reg :: "8 word list"
  reg_address :: "8 word"
  reg_status :: "8 word"
  reg_address_written :: bool
  i2c_add :: "8 word"

definition REG_COUNT :: nat where
  "REG_COUNT = 128"

record machine =
  queue :: queue_t
  status :: status_t
  ctx :: context_t
  hw_calls :: "hw_call list"
  i2c_sent :: "8 word list"
  stdout :: "string list"

text \<open>The globals as static storage holds them before \<^verbatim>\<open>main\<close> runs, with nothing done yet.\<close>

definition machine_static :: machine where
  "machine_static =
     \<lparr>queue = queue_static, status = status_clear,
      ctx = \<lparr>reg = replicate REG_COUNT 0, reg_address = 0, reg_status = 0,
             reg_address_written = False, i2c_add = 0\<rparr>,
      hw_calls = [], i2c_sent = [], stdout = []\<rparr>"

subsection \<open>Statements\<close>

text \<open>
  A function body runs on a frame: the globals and the automatic variable \<^verbatim>\<open>rec\<close>.
  A statement maps a frame to a frame, or to the fault that ends the run; \<open>block\<close>
  runs statements in order.
\<close>

record frame =
  dev :: machine
  rec :: MESSAGE

type_synonym stmt = "frame \<Rightarrow> fault + frame"

fun block :: "stmt list \<Rightarrow> stmt" where
  "block [] f = Inr f"
| "block (st # sts) f = (case st f of Inl e \<Rightarrow> Inl e | Inr f' \<Rightarrow> block sts f')"

text \<open>A driver call that acts on the hardware.\<close>

definition hw :: "hw_call \<Rightarrow> stmt" where
  "hw c f = Inr (f\<lparr>dev := (dev f)\<lparr>hw_calls := hw_calls (dev f) @ [c]\<rparr>\<rparr>)"

text \<open>
  \<^verbatim>\<open>sprintf(&rec.data[0], ...)\<close> with the formatted text given: the text and its
  terminating zero overwrite the start of the buffer, the rest keeps its bytes. A text
  that does not fit with its terminator overruns the buffer.
\<close>

definition sprintf :: "string \<Rightarrow> stmt" where
  "sprintf text f =
     (if length text < MESSAGE_SIZE
      then Inr (f\<lparr>rec := text @ NUL # drop (length text + 1) (rec f)\<rparr>)
      else Inl BufferOverflow)"

text \<open>\<^verbatim>\<open>enque(&rec);\<close> The returned flag is ignored by every caller.\<close>

definition enque_rec :: stmt where
  "enque_rec f =
     (case enque (rec f) (queue (dev f)) of
        Inl e \<Rightarrow> Inl e
      | Inr (ok, q') \<Rightarrow> Inr (f\<lparr>dev := (dev f)\<lparr>queue := q'\<rparr>\<rparr>))"

text \<open>
  The index of \<^verbatim>\<open>context.reg[...]\<close> is a \<^verbatim>\<open>uint8_t\<close> that the handler never checks
  against the 128 cells. The members of \<^verbatim>\<open>context\<close> all have size and alignment 1, so
  the struct has no padding and the bytes behind the array are its other members:
  offset 128 is \<^verbatim>\<open>reg_address\<close>, 129 \<^verbatim>\<open>reg_status\<close>, 130 \<^verbatim>\<open>reg_address_written\<close> and
  131 \<^verbatim>\<open>i2c_add\<close>. An access \<^verbatim>\<open>context.reg[i]\<close> with \<open>i\<close> from 128 to 131 reaches
  these members, and the program runs on. From offset 132 on the access leaves the
  object; what the linker has placed there is not determined by the program, and the
  model ends the run with \<open>OutOfBounds\<close>.
\<close>

definition CONTEXT_SIZE :: nat where
  "CONTEXT_SIZE = REG_COUNT + 4"

text \<open>The byte at offset \<open>i\<close> of \<^verbatim>\<open>context\<close>, for \<open>i\<close> below \<open>CONTEXT_SIZE\<close>.\<close>

definition context_byte :: "context_t \<Rightarrow> nat \<Rightarrow> 8 word" where
  "context_byte c i =
     (if i < REG_COUNT then reg c ! i
      else if i = REG_COUNT then reg_address c
      else if i = REG_COUNT + 1 then reg_status c
      else if i = REG_COUNT + 2 then of_bool (reg_address_written c)
      else i2c_add c)"

text \<open>
  \<^verbatim>\<open>context.reg[i] = v;\<close> A byte other than 0 or 1 stored over the \<^verbatim>\<open>bool\<close> member
  leaves an object that is no value of its type: what \<^verbatim>\<open>!context.reg_address_written\<close>
  then yields depends on the compiler, and the model ends the run with \<open>InvalidBool\<close>.
\<close>

definition store_reg :: "nat \<Rightarrow> 8 word \<Rightarrow> stmt" where
  "store_reg i v f =
     (let c = ctx (dev f) in
      if i < REG_COUNT
        then Inr (f\<lparr>dev := (dev f)\<lparr>ctx := c\<lparr>reg := (reg c)[i := v]\<rparr>\<rparr>\<rparr>)
      else if i = REG_COUNT
        then Inr (f\<lparr>dev := (dev f)\<lparr>ctx := c\<lparr>reg_address := v\<rparr>\<rparr>\<rparr>)
      else if i = REG_COUNT + 1
        then Inr (f\<lparr>dev := (dev f)\<lparr>ctx := c\<lparr>reg_status := v\<rparr>\<rparr>\<rparr>)
      else if i = REG_COUNT + 2
        then (if v = 0 \<or> v = 1
              then Inr (f\<lparr>dev := (dev f)\<lparr>ctx := c\<lparr>reg_address_written := (v = 1)\<rparr>\<rparr>\<rparr>)
              else Inl InvalidBool)
      else if i = REG_COUNT + 3
        then Inr (f\<lparr>dev := (dev f)\<lparr>ctx := c\<lparr>i2c_add := v\<rparr>\<rparr>\<rparr>)
      else Inl OutOfBounds)"

text \<open>
  The value of \<^verbatim>\<open>context.reg[context.reg_address]\<close>. It is read inside the two
  \<^verbatim>\<open>switch\<close> statements, where the index is one of the case labels, all below
  \<open>REG_COUNT\<close>, and after \<open>i2c_write_reg\<close>, which has ended the run if the index is
  not below \<open>CONTEXT_SIZE\<close>.
\<close>

definition cur_reg :: "frame \<Rightarrow> 8 word" where
  "cur_reg f = context_byte (ctx (dev f)) (unat (reg_address (ctx (dev f))))"

text \<open>\<^verbatim>\<open>status.cmd = 1;\<close>\<close>

definition raise_cmd_flag :: stmt where
  "raise_cmd_flag f = Inr (f\<lparr>dev := (dev f)\<lparr>status := (status (dev f))\<lparr>flag_cmd := True\<rparr>\<rparr>\<rparr>)"

text \<open>\<^verbatim>\<open>i2c_write_byte(i2c, context.reg[context.reg_address]);\<close>\<close>

definition i2c_write_reg :: stmt where
  "i2c_write_reg f =
     (if unat (reg_address (ctx (dev f))) < CONTEXT_SIZE
      then Inr (f\<lparr>dev := (dev f)\<lparr>i2c_sent := i2c_sent (dev f) @ [cur_reg f]\<rparr>\<rparr>)
      else Inl OutOfBounds)"

text \<open>\<^verbatim>\<open>context.reg[context.reg_address] = v;\<close>\<close>

definition store_cur :: "8 word \<Rightarrow> stmt" where
  "store_cur v f = store_reg (unat (reg_address (ctx (dev f)))) v f"

text \<open>\<^verbatim>\<open>context.reg_address = v;\<close>\<close>

definition set_reg_address :: "8 word \<Rightarrow> stmt" where
  "set_reg_address v f = Inr (f\<lparr>dev := (dev f)\<lparr>ctx := (ctx (dev f))\<lparr>reg_address := v\<rparr>\<rparr>\<rparr>)"

text \<open>\<^verbatim>\<open>context.reg_address_written = b;\<close>\<close>

definition set_reg_address_written :: "bool \<Rightarrow> stmt" where
  "set_reg_address_written b f =
     Inr (f\<lparr>dev := (dev f)\<lparr>ctx := (ctx (dev f))\<lparr>reg_address_written := b\<rparr>\<rparr>\<rparr>)"

section \<open>The I2C event handler\<close>

datatype i2c_slave_event_t = I2C_SLAVE_RECEIVE | I2C_SLAVE_REQUEST | I2C_SLAVE_FINISH

text \<open>
  The inner \<^verbatim>\<open>switch (cmd)\<close> of the receive branch: the action of a write command, run
  after the data byte has been stored.
\<close>

definition write_switch :: "8 word \<Rightarrow> stmt" where
  "write_switch cmd =
     (if cmd = 10 then block [
        (\<lambda>f. hw (Gpio_put (unat (cur_reg f)) False) f),
        (\<lambda>f. sprintf (''Cmd '' @ fmt_02d (unat cmd) @ '', Clear Gpio: ''
                        @ fmt_02d (unat (cur_reg f)) @ '' '') f),
        enque_rec]
      else if cmd = 11 then block [
        (\<lambda>f. hw (Gpio_put (unat (cur_reg f)) True) f),
        (\<lambda>f. sprintf (''Cmd '' @ fmt_02d (unat cmd) @ '', Set Gpio: ''
                        @ fmt_02d (unat (cur_reg f)) @ '' '') f),
        enque_rec]
      else if cmd = 12 then block [
        (\<lambda>f. if cur_reg f < 10 then hw (Gpio_put_masked GPIO_BANK0_MASK 0x00) f
              else hw (Gpio_put_masked GPIO_BANK1_MASK 0x00) f),
        (\<lambda>f. sprintf (''Cmd '' @ fmt_02d (unat cmd) @ '', Clear Bank Gpio: ''
                        @ fmt_02d (unat (cur_reg f)) @ '' '') f),
        enque_rec]
      else if cmd = 20 then block [
        (\<lambda>f. hw (Gpio_set_dir (unat (cur_reg f)) True) f),
        (\<lambda>f. sprintf (''Cmd '' @ fmt_02d (unat cmd) @ '', Set Dir Out Gpio: ''
                        @ fmt_02d (unat (cur_reg f)) @ '' '') f),
        enque_rec]
      else if cmd = 21 then block [
        (\<lambda>f. hw (Gpio_set_dir (unat (cur_reg f)) False) f),
        (\<lambda>f. sprintf (''Cmd '' @ fmt_02d (unat cmd) @ '', Set dir In Gpio: ''
                        @ fmt_02d (unat (cur_reg f)) @ '' '') f),
        enque_rec]
      else if cmd = 30 then block [
        (\<lambda>f. hw (Gpio_set_drive_strength (unat (cur_reg f)) GPIO_DRIVE_STRENGTH_2MA) f),
        (\<lambda>f. sprintf (''Cmd '' @ fmt_02d (unat cmd) @ '', 2mA Gpio: ''
                        @ fmt_02d (unat (cur_reg f)) @ '' '') f),
        enque_rec]
      else if cmd = 31 then block [
        (\<lambda>f. hw (Gpio_set_drive_strength (unat (cur_reg f)) GPIO_DRIVE_STRENGTH_4MA) f),
        (\<lambda>f. sprintf (''Cmd '' @ fmt_02d (unat cmd) @ '', 4mA Gpio: ''
                        @ fmt_02d (unat (cur_reg f)) @ '' '') f),
        enque_rec]
      else if cmd = 32 then block [
        (\<lambda>f. hw (Gpio_set_drive_strength (unat (cur_reg f)) GPIO_DRIVE_STRENGTH_8MA) f),
        (\<lambda>f. sprintf (''Cmd '' @ fmt_02d (unat cmd) @ '', 8mA Gpio: ''
                        @ fmt_02d (unat (cur_reg f)) @ '' '') f),
        enque_rec]
      else if cmd = 33 then block [
        (\<lambda>f. hw (Gpio_set_drive_strength (unat (cur_reg f)) GPIO_DRIVE_STRENGTH_12MA) f),
        (\<lambda>f. sprintf (''Cmd '' @ fmt_02d (unat cmd) @ '', 12mA Gpio: ''
                        @ fmt_02d (unat (cur_reg f)) @ '' '') f),
        enque_rec]
      else if cmd = 41 then block [
        (\<lambda>f. hw (Gpio_pull_up (unat (cur_reg f))) f),
        (\<lambda>f. sprintf (''Cmd '' @ fmt_02d (unat cmd) @ '', Pull-up Gpio: ''
                        @ fmt_02d (unat (cur_reg f)) @ '',  '') f),
        enque_rec]
      else if cmd = 50 then block [
        (\<lambda>f. hw (Gpio_disable_pulls (unat (cur_reg f))) f),
        (\<lambda>f. sprintf (''Cmd '' @ fmt_02d (unat cmd) @ '', Clear pull-up, pull-down Gpio: ''
                        @ fmt_02d (unat (cur_reg f)) @ '',  '') f),
        enque_rec]
      else if cmd = 51 then block [
        (\<lambda>f. hw (Gpio_pull_down (unat (cur_reg f))) f),
        (\<lambda>f. sprintf (''Cmd '' @ fmt_02d (unat cmd) @ '', Pull-down Gpio: ''
                        @ fmt_02d (unat (cur_reg f)) @ '',  '') f),
        enque_rec]
      else if cmd = 60 then block [
        (\<lambda>f. sprintf (''Cmd '' @ fmt_02d (unat cmd) @ '', Pad State: ''
                        @ fmt_01d (unat (cur_reg f)) @ '' '') f),
        enque_rec]
      else if cmd = 61 then block [
        (\<lambda>f. let maskvalue = 0xff :: 32 word in
              hw (Hw_write_masked_pads_io (unat (cur_reg f))
                    (ucast (reg (ctx (dev f)) ! (unat cmd - 1))) maskvalue) f),
        (\<lambda>f. sprintf (''Cmd '' @ fmt_02d (unat cmd) @ '', Set Pad State to Gpio: ''
                        @ fmt_02d (unat (cur_reg f)) @ '' ,State: 0x''
                        @ fmt_01x (unat (reg (ctx (dev f)) ! (unat cmd - 1))) @ '' '') f),
        enque_rec]
      else if cmd = 80 then block [
        (\<lambda>f. if i2c_add (ctx (dev f)) = PICO_PORT_ADDRESS
              then (let maskvalue = ucast (cur_reg f) :: 32 word in block [
                hw (Gpio_set_dir_masked PORT0_MASK maskvalue),
                sprintf (''Cmd '' @ fmt_02d (unat cmd) @ '', Port0, dir: 0x''
                         @ fmt_02x (unat maskvalue) @ '',  '')] f)
              else block [
                sprintf (''Cmd '' @ fmt_02d (unat cmd) @ '', Not Valid for I2C Pico: 0x''
                         @ fmt_02x (unat (i2c_add (ctx (dev f)))) @ '',  ''),
                raise_cmd_flag] f),
        enque_rec]
      else if cmd = 81 then block [
        (\<lambda>f. if i2c_add (ctx (dev f)) = PICO_PORT_ADDRESS
              then (let maskvalue = ucast (cur_reg f) :: 32 word in block [
                hw (Gpio_put_masked PORT0_MASK maskvalue),
                sprintf (''Cmd '' @ fmt_02d (unat cmd) @ '', Port0, 8 bit Out: 0x''
                         @ fmt_02x (unat (cur_reg f)) @ '',  '')] f)
              else block [
                sprintf (''Cmd '' @ fmt_02d (unat cmd) @ '', Not Valid for I2C Pico: 0x''
                         @ fmt_02x (unat (i2c_add (ctx (dev f)))) @ '',  ''),
                raise_cmd_flag] f),
        enque_rec]
      else if cmd = 90 then block [
        (\<lambda>f. if i2c_add (ctx (dev f)) = PICO_PORT_ADDRESS
              then (let maskvalue = push_bit PORT1_OFFSET (ucast (cur_reg f)) :: 32 word in block [
                hw (Gpio_set_dir_masked PORT1_MASK maskvalue),
                sprintf (''Cmd '' @ fmt_02d (unat cmd) @ '', Port1, dir: 0x''
                         @ fmt_02x (unat maskvalue) @ '',  '')] f)
              else block [
                sprintf (''Cmd '' @ fmt_02d (unat cmd) @ '', Not Valid for I2C Pico: 0x''
                         @ fmt_02x (unat (i2c_add (ctx (dev f)))) @ '',  ''),
                raise_cmd_flag] f),
        enque_rec]
      else if cmd = 91 then block [
        (\<lambda>f. if i2c_add (ctx (dev f)) = PICO_PORT_ADDRESS
              then (let maskvalue = push_bit PORT1_OFFSET (ucast (cur_reg f)) :: 32 word in block [
                hw (Gpio_put_masked PORT1_MASK maskvalue),
                sprintf (''Cmd '' @ fmt_02d (unat cmd) @ '', Port1, 8 bit Out: 0x''
                         @ fmt_02x (unat (cur_reg f)) @ '',  '')] f)
              else block [
                sprintf (''Cmd '' @ fmt_02d (unat cmd) @ '', Not Valid for I2C Pico: 0x''
                         @ fmt_02x (unat (i2c_add (ctx (dev f)))) @ '',  '')] f),
        enque_rec]
      else block [])"

text \<open>
  The \<^verbatim>\<open>switch (cmd)\<close> of the request branch: the action of a read command, which
  refreshes the addressed cell before it is sent.
\<close>

definition read_switch :: "userconfig \<Rightarrow> env_t \<Rightarrow> 8 word \<Rightarrow> stmt" where
  "read_switch uc env cmd =
     (if cmd = 1 then block [
        store_cur (word_of_int (IO_SLAVE_VERSION_MAJOR uc)),
        (\<lambda>f. sprintf (''Cmd '' @ fmt_02d (unat cmd) @ '', MAJ Version: ''
                        @ fmt_02d (unat (cur_reg f)) @ '' '') f),
        enque_rec]
      else if cmd = 2 then block [
        store_cur (word_of_int (IO_SLAVE_VERSION_MINOR uc)),
        (\<lambda>f. sprintf (''Cmd '' @ fmt_02d (unat cmd) @ '', MIN Version: ''
                        @ fmt_02d (unat (cur_reg f)) @ '' '') f),
        enque_rec]
      else if cmd = 13 then
        (\<lambda>f. let lvalue = gpio_get_all env;
                  svalue = (if cur_reg f < 10 then ucast lvalue
                            else ucast (drop_bit 10 lvalue)) :: 8 word
              in block [
                (\<lambda>f. sprintf (''Cmd '' @ fmt_02d (unat cmd) @ '', Bank: ''
                          @ fmt_02d (unat (cur_reg f)) @ '', read: 0x''
                          @ fmt_01x (unat svalue) @ '' '') f),
                enque_rec,
                store_cur svalue] f)
      else if cmd = 15 then
        (\<lambda>f. let tvalue = gpio_get env (unat (cur_reg f))
              in block [
                (\<lambda>f. sprintf (''Cmd '' @ fmt_02d (unat cmd) @ '', read True Gpio: ''
                          @ fmt_02d (unat (cur_reg f)) @ '' ,State: ''
                          @ fmt_01d (of_bool tvalue) @ '' '') f),
                enque_rec,
                store_cur (of_bool tvalue)] f)
      else if cmd = 25 then
        (\<lambda>f. let tvalue = gpio_get_dir env (unat (cur_reg f))
              in block [
                (\<lambda>f. sprintf (''Cmd '' @ fmt_02d (unat cmd) @ '', Red Dir Gpio: ''
                          @ fmt_02d (unat (cur_reg f)) @ '' ,State: ''
                          @ fmt_01d (of_bool tvalue) @ '' '') f),
                enque_rec,
                store_cur (of_bool tvalue)] f)
      else if cmd = 35 then
        (\<lambda>f. let svalue = drive_strength_value (gpio_get_drive_strength env (unat (cur_reg f)))
              in block [
                (\<lambda>f. sprintf (''Cmd '' @ fmt_02d (unat cmd) @ '', Read strenght Gpio: ''
                          @ fmt_02d (unat (cur_reg f)) @ '' ,State: ''
                          @ fmt_01d (unat svalue) @ '' '') f),
                enque_rec,
                store_cur svalue] f)
      else if cmd = 45 then
        (\<lambda>f. let tvalue = gpio_is_pulled_up env (unat (cur_reg f))
              in block [
                (\<lambda>f. sprintf (''Cmd '' @ fmt_02d (unat cmd) @ '', read pull-up Gpio: ''
                          @ fmt_02d (unat (cur_reg f)) @ '' ,State: ''
                          @ fmt_01d (of_bool tvalue) @ '' '') f),
                enque_rec,
                store_cur (of_bool tvalue)] f)
      else if cmd = 55 then
        (\<lambda>f. let tvalue = gpio_is_pulled_down env (unat (cur_reg f))
              in block [
                (\<lambda>f. sprintf (''Cmd '' @ fmt_02d (unat cmd) @ '', Read pull-down Gpio: ''
                          @ fmt_02d (unat (cur_reg f)) @ '' ,State: ''
                          @ fmt_01d (of_bool tvalue) @ '' '') f),
                enque_rec,
                store_cur (of_bool tvalue)] f)
      else if cmd = 65 then
        (\<lambda>f. let svalue = ucast (pads_bank0_io env (unat (cur_reg f)) AND 0xff) :: 8 word
              in block [
                (\<lambda>f. sprintf (''Cmd '' @ fmt_02d (unat cmd) @ '', Gpio: ''
                          @ fmt_02d (unat (cur_reg f)) @ '' ,Read PAD State: 0x''
                          @ fmt_01x (unat svalue) @ '' '') f),
                enque_rec,
                store_cur svalue] f)
      else if cmd = 85 then block [
        (\<lambda>f. if i2c_add (ctx (dev f)) = PICO_PORT_ADDRESS
              then (let lvalue = gpio_get_all env;
                        svalue = ucast lvalue :: 8 word
                    in block [
                      sprintf (''Cmd '' @ fmt_02d (unat cmd) @ '',Read Port0 8 bit In: 0x''
                               @ fmt_01x (unat svalue) @ '' ''),
                      store_cur svalue] f)
              else block [
                sprintf (''Cmd '' @ fmt_02d (unat cmd) @ '', Not Valid for I2C Pico: 0x''
                         @ fmt_02x (unat (i2c_add (ctx (dev f)))) @ '',  ''),
                raise_cmd_flag] f),
        enque_rec]
      else if cmd = 95 then block [
        (\<lambda>f. if i2c_add (ctx (dev f)) = PICO_PORT_ADDRESS
              then (let lvalue = gpio_get_all env;
                        svalue = ucast (drop_bit PORT1_OFFSET lvalue) :: 8 word
                    in block [
                      sprintf (''Cmd '' @ fmt_02d (unat cmd) @ '', Read Port1 8 bit In: 0x''
                               @ fmt_01x (unat svalue) @ '' ''),
                      store_cur svalue] f)
              else block [
                sprintf (''Cmd '' @ fmt_02d (unat cmd) @ '', Not Valid for I2C Pico: 0x''
                         @ fmt_02x (unat (i2c_add (ctx (dev f)))) @ '',  ''),
                raise_cmd_flag] f),
        enque_rec]
      else if cmd = 100 then block [
        (\<lambda>f. store_reg REG_STATUS (all_flags (status (dev f))) f),
        (\<lambda>f. sprintf (''Cmd '' @ fmt_02d (unat cmd) @ '',Status register: 0x''
                        @ fmt_01x (unat (reg (ctx (dev f)) ! REG_STATUS)) @ '' '') f),
        enque_rec]
      else block [])"

text \<open>
  The body of \<^verbatim>\<open>i2c_slave_handler\<close>, on the frame. The enumeration has the three
  values below, so the \<^verbatim>\<open>default\<close> branch of the outer \<^verbatim>\<open>switch\<close> is never taken.
\<close>

definition handler_body :: "userconfig \<Rightarrow> env_t \<Rightarrow> i2c_slave_event_t \<Rightarrow> stmt" where
  "handler_body uc env event =
     (case event of
        I2C_SLAVE_RECEIVE \<Rightarrow>
          (\<lambda>f. if \<not> reg_address_written (ctx (dev f))
                then block [
                  set_reg_address (i2c_read_byte env),
                  set_reg_address_written True] f
                else block [
                  store_cur (i2c_read_byte env),
                  (\<lambda>f. let cmd = reg_address (ctx (dev f)) in write_switch cmd f)] f)
      | I2C_SLAVE_REQUEST \<Rightarrow>
          (\<lambda>f. let cmd = reg_address (ctx (dev f)) in block [
                  read_switch uc env cmd,
                  i2c_write_reg,
                  (\<lambda>f. sprintf (''Read Cmd : '' @ fmt_02d (unat cmd) @ '' , Value: ''
                                  @ fmt_02d (unat (cur_reg f)) @ '' '') f),
                  enque_rec] f)
      | I2C_SLAVE_FINISH \<Rightarrow> set_reg_address_written False)"

text \<open>
  One call of the handler from the interrupt: the globals before, the globals after.
  The automatic variable \<^verbatim>\<open>rec\<close> starts with the bytes the stack holds.
\<close>

definition i2c_slave_handler ::
    "userconfig \<Rightarrow> env_t \<Rightarrow> i2c_slave_event_t \<Rightarrow> machine \<Rightarrow> fault + machine" where
  "i2c_slave_handler uc env event s =
     (case handler_body uc env event \<lparr>dev = s, rec = stack_rec env\<rparr> of
        Inl e \<Rightarrow> Inl e
      | Inr f \<Rightarrow> Inr (dev f))"

text \<open>A sequence of bus events, each with the environment at the time of its interrupt.\<close>

fun run_events ::
    "userconfig \<Rightarrow> (env_t \<times> i2c_slave_event_t) list \<Rightarrow> machine \<Rightarrow> fault + machine" where
  "run_events uc [] s = Inr s"
| "run_events uc ((env, event) # es) s =
     (case i2c_slave_handler uc env event s of
        Inl e \<Rightarrow> Inl e
      | Inr s' \<Rightarrow> run_events uc es s')"

text \<open>The master writes byte \<open>b\<close>: a receive event with \<open>b\<close> in the FIFO.\<close>

definition receive :: "env_t \<Rightarrow> 8 word \<Rightarrow> env_t \<times> i2c_slave_event_t" where
  "receive env b = (env\<lparr>i2c_read_byte := b\<rparr>, I2C_SLAVE_RECEIVE)"

definition request :: "env_t \<Rightarrow> env_t \<times> i2c_slave_event_t" where
  "request env = (env, I2C_SLAVE_REQUEST)"

definition finish :: "env_t \<Rightarrow> env_t \<times> i2c_slave_event_t" where
  "finish env = (env, I2C_SLAVE_FINISH)"

section \<open>Start-up and the background loop\<close>

text \<open>\<^verbatim>\<open>%d\<close> of an \<^verbatim>\<open>int\<close>.\<close>

definition fmt_d :: "int \<Rightarrow> string" where
  "fmt_d i = (if i < 0 then ''-'' @ dec_digits (nat (- i)) else dec_digits (nat i))"

text \<open>A line written to \<^verbatim>\<open>stdout\<close> (without its newline).\<close>

definition print_line :: "string \<Rightarrow> stmt" where
  "print_line text f = Inr (f\<lparr>dev := (dev f)\<lparr>stdout := stdout (dev f) @ [text]\<rparr>\<rparr>)"

text \<open>
  \<^verbatim>\<open>read_i2c_address\<close>: the two strap pins are set up as pulled-up inputs and read;
  the result is \<open>0x20\<close> plus the two-bit value read.
\<close>

definition read_i2c_address :: "env_t \<Rightarrow> frame \<Rightarrow> fault + (8 word \<times> frame)" where
  "read_i2c_address env f =
     (case block [
         hw (Gpio_set_function I2C_SLAVE_ADDRESS_IO0 GPIO_FUNC_SIO),
         hw (Gpio_set_dir I2C_SLAVE_ADDRESS_IO0 False),
         hw (Gpio_pull_up I2C_SLAVE_ADDRESS_IO0),
         hw (Gpio_set_function I2C_SLAVE_ADDRESS_IO1 GPIO_FUNC_SIO),
         hw (Gpio_set_dir I2C_SLAVE_ADDRESS_IO1 False),
         hw (Gpio_pull_up I2C_SLAVE_ADDRESS_IO1)] f of
        Inl e \<Rightarrow> Inl e
      | Inr f' \<Rightarrow>
          (let io0 = of_bool (gpio_get env I2C_SLAVE_ADDRESS_IO0) :: 8 word;
               io1 = of_bool (gpio_get env I2C_SLAVE_ADDRESS_IO1) :: 8 word;
               I2C_address = I2C_OFFSET_ADDRESS + push_bit 1 io1 + io0
           in Inr (I2C_address, f')))"

text \<open>\<^verbatim>\<open>setup_slave\<close>: the two bus pins, the I2C block, and the registration as a slave.\<close>

definition setup_slave :: "8 word \<Rightarrow> stmt" where
  "setup_slave addr =
     block [
       hw (Gpio_init I2C_SLAVE_SDA_PIN),
       hw (Gpio_set_function I2C_SLAVE_SDA_PIN GPIO_FUNC_I2C),
       hw (Gpio_pull_up I2C_SLAVE_SDA_PIN),
       hw (Gpio_init I2C_SLAVE_SCL_PIN),
       hw (Gpio_set_function I2C_SLAVE_SCL_PIN GPIO_FUNC_I2C),
       hw (Gpio_pull_up I2C_SLAVE_SCL_PIN),
       hw (I2c_init I2C_BAUDRATE),
       hw (I2c_slave_init addr)]"

text \<open>The automatic variables of \<^verbatim>\<open>main\<close> besides \<^verbatim>\<open>rec\<close>.\<close>

record main_locals =
  pulse :: "16 word"
  ctr :: "16 word"
  mess :: int

text \<open>
  \<^verbatim>\<open>main\<close> from its first statement to the entry of \<^verbatim>\<open>while (1)\<close>. The result holds
  the frame and the locals the loop starts with.
\<close>

definition main_boot :: "userconfig \<Rightarrow> env_t \<Rightarrow> machine \<Rightarrow> fault + (main_locals \<times> frame)" where
  "main_boot uc env s =
     (let f0 = \<lparr>dev = s\<lparr>status := status_clear\<rparr>, rec = stack_rec env\<rparr>;
          pulse0 = 200 :: 16 word;
          f1 = (if watchdog_caused_reboot env
                then f0\<lparr>dev := (dev f0)\<lparr>status := (status (dev f0))\<lparr>flag_watch := True\<rparr>\<rparr>\<rparr>
                else f0);
          pulse1 = (if watchdog_caused_reboot env then 50 else pulse0)
      in case block [
           hw (Gpio_init_mask GPIO_BOOT_MASK),
           (\<lambda>f. Inr (f\<lparr>dev := (dev f)\<lparr>queue := init_queue (queue (dev f))\<rparr>\<rparr>)),
           hw Stdio_init_all,
           print_line (''Slave Version: '' @ fmt_d (IO_SLAVE_VERSION_MAJOR uc) @ ''.''
                       @ fmt_d (IO_SLAVE_VERSION_MINOR uc))] f1 of
        Inl e \<Rightarrow> Inl e
      | Inr f2 \<Rightarrow>
          (case read_i2c_address env f2 of
             Inl e \<Rightarrow> Inl e
           | Inr (addr, f3) \<Rightarrow>
               (case block [
                   (\<lambda>f. Inr (f\<lparr>dev := (dev f)\<lparr>ctx := (ctx (dev f))\<lparr>i2c_add := addr\<rparr>\<rparr>\<rparr>)),
                   (\<lambda>f. sprintf (''Pico Slave boot for I2C address 0x''
                                  @ fmt_02x (unat (i2c_add (ctx (dev f))))) f),
                   enque_rec,
                   (\<lambda>f. if i2c_add (ctx (dev f)) = 0x21 then block [
                           hw (Gpio_set_dir_masked GPIO_SET_DIR_MASK GPIO_SLV1_DIR_MASK),
                           hw (Gpio_put_masked GPIO_SET_DIR_MASK GPIO_SLV1_OUT_MASK),
                           sprintf (''Config for I2C address 0x''
                                    @ fmt_02x (unat (i2c_add (ctx (dev f)))) @ '' completed'')] f
                         else if i2c_add (ctx (dev f)) = 0x22 \<or> i2c_add (ctx (dev f)) = 0x23
                         then block [
                           hw (Gpio_set_dir_masked GPIO_SET_DIR_MASK GPIO_SLV2_DIR_MASK),
                           hw (Gpio_put_masked GPIO_SET_DIR_MASK GPIO_SLV2_OUT_MASK),
                           sprintf (''Config for I2C address 0x''
                                    @ fmt_02x (unat (i2c_add (ctx (dev f)))) @ '' completed'')] f
                         else block [
                           sprintf (''I2C address not supported for device at address  0x''
                                    @ fmt_02x (unat (i2c_add (ctx (dev f))))),
                           (\<lambda>f. Inr (f\<lparr>dev := (dev f)\<lparr>status :=
                                         (status (dev f))\<lparr>flag_cfg := True\<rparr>\<rparr>\<rparr>))] f),
                   enque_rec,
                   (\<lambda>f. setup_slave (i2c_add (ctx (dev f))) f),
                   hw (Gpio_init (PICO_DEFAULT_LED_PIN uc)),
                   hw (Gpio_set_dir (PICO_DEFAULT_LED_PIN uc) True),
                   hw (Gpio_put (PICO_DEFAULT_LED_PIN uc) True)] f3 of
                  Inl e \<Rightarrow> Inl e
                | Inr f4 \<Rightarrow> Inr (\<lparr>pulse = pulse1, ctr = 0, mess = 0\<rparr>, f4))))"

text \<open>
  The inner loop \<^verbatim>\<open>while (deque(&rec)) { ... }\<close>: every queued record is taken out
  and printed. \<^verbatim>\<open>%s\<close> prints the bytes up to the terminating zero; a record without
  one would be read past its end.
\<close>

function drain_queue :: "userconfig \<Rightarrow> frame \<Rightarrow> fault + frame" where
  "drain_queue uc f =
     (case deque (queue (dev f)) of
        Inl e \<Rightarrow> Inl e
      | Inr (None, q') \<Rightarrow> Inr f
      | Inr (Some message, q') \<Rightarrow>
          (case block [
              hw (Gpio_put (PICO_DEFAULT_LED_PIN uc) False),
              (\<lambda>f. if NUL \<in> set (rec f)
                    then print_line (''Pico '' @ fmt_02x (unat (i2c_add (ctx (dev f)))) @ '': ''
                                     @ c_str (rec f)) f
                    else Inl BufferOverflow),
              hw (Sleep_ms 50),
              hw (Gpio_put (PICO_DEFAULT_LED_PIN uc) True)]
                (f\<lparr>rec := message, dev := (dev f)\<lparr>queue := q'\<rparr>\<rparr>) of
             Inl e \<Rightarrow> Inl e
           | Inr f' \<Rightarrow> drain_queue uc f'))"
  by pat_completeness auto

text \<open>Each pass takes one record out, so the loop ends when the load has dropped to zero.\<close>

termination drain_queue
  by (relation "measure (\<lambda>(uc, f). nat (current_load (queue (dev f))))")
    (auto simp: hw_def print_line_def deque_def split: if_splits)

text \<open>
  One pass through the body of \<^verbatim>\<open>while (1)\<close>, without the development-only loopback
  block, which is compiled in only under \<^verbatim>\<open>USE_MASTER_LOOPBACK\<close>.
\<close>

definition main_loop_body ::
    "userconfig \<Rightarrow> main_locals \<times> frame \<Rightarrow> fault + (main_locals \<times> frame)" where
  "main_loop_body uc lf =
     (let l = fst lf; f = snd lf in
      case block [hw Watchdog_update, hw (Sleep_ms 10)] f of
        Inl e \<Rightarrow> Inl e
      | Inr f1 \<Rightarrow>
          (let l1 = l\<lparr>ctr := ctr l + 1, mess := mess l + 1\<rparr> in
           case (if ctr l1 > pulse l1
                 then block [
                   hw (Gpio_put (PICO_DEFAULT_LED_PIN uc) False),
                   hw (Sleep_ms 200),
                   hw (Gpio_put (PICO_DEFAULT_LED_PIN uc) True)] f1
                 else Inr f1) of
             Inl e \<Rightarrow> Inl e
           | Inr f2 \<Rightarrow>
               (let l2 = (if ctr l1 > pulse l1 then l1\<lparr>ctr := 0\<rparr> else l1) in
                case (if mess l2 > 1500
                      then print_line (''Heartbeat I2C Slave add: 0x''
                             @ fmt_02x (unat (i2c_add (ctx (dev f2)))) @ ''  version: ''
                             @ fmt_d (IO_SLAVE_VERSION_MAJOR uc) @ ''.''
                             @ fmt_d (IO_SLAVE_VERSION_MINOR uc)) f2
                      else Inr f2) of
                  Inl e \<Rightarrow> Inl e
                | Inr f3 \<Rightarrow>
                    (let l3 = (if mess l2 > 1500 then l2\<lparr>mess := 0\<rparr> else l2) in
                     case drain_queue uc f3 of
                       Inl e \<Rightarrow> Inl e
                     | Inr f4 \<Rightarrow> Inr (l3, f4)))))"

text \<open>An environment for the examples: nothing received, every reading zero.\<close>

definition env_idle :: env_t where
  "env_idle =
     \<lparr>i2c_read_byte = 0, gpio_get_all = 0, gpio_get = (\<lambda>_. False),
      gpio_get_dir = (\<lambda>_. False), gpio_get_drive_strength = (\<lambda>_. GPIO_DRIVE_STRENGTH_2MA),
      gpio_is_pulled_up = (\<lambda>_. False), gpio_is_pulled_down = (\<lambda>_. False),
      pads_bank0_io = (\<lambda>_. 0), watchdog_caused_reboot = False,
      stack_rec = replicate 64 CHR ''?''\<rparr>"

definition uc_example :: userconfig where
  "uc_example =
     \<lparr>IO_SLAVE_VERSION_MAJOR = 1, IO_SLAVE_VERSION_MINOR = 0, PICO_DEFAULT_LED_PIN = 25\<rparr>"

section \<open>Notions used in the statements\<close>

text \<open>The queue a call of \<open>enque\<close> leaves, when the call does not fault.\<close>

definition queue_after_enque :: "MESSAGE \<Rightarrow> queue_t \<Rightarrow> queue_t" where
  "queue_after_enque message q = (case enque message q of Inl e \<Rightarrow> q | Inr (ok, q') \<Rightarrow> q')"

text \<open>
  A state of the globals as the running program has it: the queue consistent, the
  register file of its declared size.
\<close>

definition machine_ok :: "machine \<Rightarrow> bool" where
  "machine_ok s \<longleftrightarrow> queue_inv (queue s) \<and> length (reg (ctx s)) = REG_COUNT"

definition frame_ok :: "frame \<Rightarrow> bool" where
  "frame_ok f \<longleftrightarrow> machine_ok (dev f)"

text \<open>
  The specification's data byte, in its own words: the byte is stored into the
  selected cell, then the write command of that address, if there is one, acts on the
  state that holds the stored byte.
\<close>

definition store_then_act :: "env_t \<Rightarrow> 8 word \<Rightarrow> machine \<Rightarrow> fault + machine" where
  "store_then_act env v s =
     (let stored = s\<lparr>ctx := (ctx s)\<lparr>reg := (reg (ctx s))[unat (reg_address (ctx s)) := v]\<rparr>\<rparr>
      in case write_switch (reg_address (ctx s)) \<lparr>dev = stored, rec = stack_rec env\<rparr> of
           Inl e \<Rightarrow> Inl e
         | Inr f \<Rightarrow> Inr (dev f))"

text \<open>The data bytes of one transaction, handled one after the other in this way.\<close>

fun data_bytes :: "(env_t \<times> 8 word) list \<Rightarrow> machine \<Rightarrow> fault + machine" where
  "data_bytes [] s = Inr s"
| "data_bytes ((env, v) # evs) s =
     (case store_then_act env v s of Inl e \<Rightarrow> Inl e | Inr s' \<Rightarrow> data_bytes evs s')"

text \<open>
  The addresses whose cell a read request recomputes before sending it: the read
  commands, the two port-wide ones only on the device with the port identity.
\<close>

definition refreshed_on_read :: "8 word \<Rightarrow> 8 word \<Rightarrow> bool" where
  "refreshed_on_read addr a \<longleftrightarrow>
     a \<in> {1, 2, 13, 15, 25, 35, 45, 55, 65, 100}
     \<or> (a \<in> {85, 95} \<and> addr = PICO_PORT_ADDRESS)"

text \<open>
  The text of the record a port-wide command leaves on a device without the port
  identity, and the record itself as \<^verbatim>\<open>sprintf\<close> builds it in the handler's buffer.
\<close>

definition rejection_text :: "8 word \<Rightarrow> 8 word \<Rightarrow> string" where
  "rejection_text cmd addr =
     ''Cmd '' @ fmt_02d (unat cmd) @ '', Not Valid for I2C Pico: 0x'' @ fmt_02x (unat addr) @ '',  ''"

definition rejection_record :: "env_t \<Rightarrow> 8 word \<Rightarrow> 8 word \<Rightarrow> MESSAGE" where
  "rejection_record env cmd addr =
     rejection_text cmd addr @ NUL # drop (length (rejection_text cmd addr) + 1) (stack_rec env)"

text \<open>The text of the record that closes every read request.\<close>

definition readback_text :: "8 word \<Rightarrow> 8 word \<Rightarrow> string" where
  "readback_text cmd v =
     ''Read Cmd : '' @ fmt_02d (unat cmd) @ '' , Value: '' @ fmt_02d (unat v) @ '' ''"

text \<open>The globals of a device whose identity is \<open>0x22\<close>, idle, nothing queued.\<close>

definition machine_relay_example :: machine where
  "machine_relay_example = machine_static\<lparr>ctx := (ctx machine_static)\<lparr>i2c_add := 0x22\<rparr>\<rparr>"

text \<open>The master writes \<open>0xFF\<close> to address 91, and to address 90, of that device.\<close>

definition port1_output_rejected_run :: "fault + machine" where
  "port1_output_rejected_run =
     run_events uc_example [receive env_idle 91, receive env_idle 0xFF] machine_relay_example"

definition port1_direction_rejected_run :: "fault + machine" where
  "port1_direction_rejected_run =
     run_events uc_example [receive env_idle 90, receive env_idle 0xFF] machine_relay_example"

text \<open>The master writes \<open>0x55\<close> to address 100, then reads address 100.\<close>

definition status_readback_run :: "fault + machine" where
  "status_readback_run =
     run_events uc_example
       [receive env_idle 100, receive env_idle 0x55, finish env_idle, receive env_idle 100,
        request env_idle] machine_static"

text \<open>The master writes the two data bytes 11 and 5 to address 128.\<close>

definition address_overrun_run :: "fault + machine" where
  "address_overrun_run =
     run_events uc_example [receive env_idle 128, receive env_idle 11, receive env_idle 5]
       machine_static"

text \<open>
  The driver calls of a start-up that registers the slave at \<open>addr\<close> and sets no pin
  direction or level for the identity: pin multiplexing, console, the two strap pins,
  the two bus pins, the I2C block and the LED.
\<close>

definition boot_calls :: "userconfig \<Rightarrow> 8 word \<Rightarrow> hw_call list" where
  "boot_calls uc addr =
     [Gpio_init_mask GPIO_BOOT_MASK, Stdio_init_all,
      Gpio_set_function I2C_SLAVE_ADDRESS_IO0 GPIO_FUNC_SIO,
      Gpio_set_dir I2C_SLAVE_ADDRESS_IO0 False, Gpio_pull_up I2C_SLAVE_ADDRESS_IO0,
      Gpio_set_function I2C_SLAVE_ADDRESS_IO1 GPIO_FUNC_SIO,
      Gpio_set_dir I2C_SLAVE_ADDRESS_IO1 False, Gpio_pull_up I2C_SLAVE_ADDRESS_IO1,
      Gpio_init I2C_SLAVE_SDA_PIN, Gpio_set_function I2C_SLAVE_SDA_PIN GPIO_FUNC_I2C,
      Gpio_pull_up I2C_SLAVE_SDA_PIN,
      Gpio_init I2C_SLAVE_SCL_PIN, Gpio_set_function I2C_SLAVE_SCL_PIN GPIO_FUNC_I2C,
      Gpio_pull_up I2C_SLAVE_SCL_PIN,
      I2c_init I2C_BAUDRATE, I2c_slave_init addr,
      Gpio_init (PICO_DEFAULT_LED_PIN uc), Gpio_set_dir (PICO_DEFAULT_LED_PIN uc) True,
      Gpio_put (PICO_DEFAULT_LED_PIN uc) True]"

text \<open>A full queue: 64 records of 64 bytes \<open>x\<close>, as 64 calls of \<open>enque\<close> leave it.\<close>

definition queue_full_example :: queue_t where
  "queue_full_example =
     \<lparr>messages = replicate 64 (replicate 64 CHR ''x''), q_begin = 0, q_end = 64,
      current_load = 64\<rparr>"


section \<open>Properties of the queue\<close>

lemma length_memset_messages [simp]: "length (memset_messages ms i n) = length ms"
  by (simp add: memset_messages_def)

lemma memset_one_message:
  "memset_messages ms i MESSAGE_SIZE = ms[i := zero_message]"
  by (rule nth_equalityI) (auto simp: memset_messages_def MESSAGE_SIZE_def nth_list_update)

lemma memset_init_messages:
  "memset_messages ms 0 (QUEUE_SIZE * sizeof_int) =
     map (\<lambda>j. if j < 4 then zero_message else ms ! j) [0 ..< length ms]"
  by (auto simp: memset_messages_def MESSAGE_SIZE_def QUEUE_SIZE_def sizeof_int_def)

lemma queue_inv_init_queue:
  "length (messages q) = QUEUE_SIZE \<Longrightarrow> queue_inv (init_queue q)"
  by (simp add: queue_inv_def init_queue_def QUEUE_SIZE_def)

lemma length_contents [simp]: "length (contents q) = nat (current_load q)"
  by (simp add: contents_def)

lemma contents_init_queue [simp]: "contents (init_queue q) = []"
  by (simp add: contents_def init_queue_def)

lemma cyclic_slots_distinct:
  fixes b i j :: nat
  assumes "i < j" "j < 64"
  shows "(b + i) mod 64 \<noteq> (b + j) mod 64"
proof
  assume "(b + i) mod 64 = (b + j) mod 64"
  then have "(b + j) mod 64 = (b + i) mod 64" by simp
  then have "64 dvd (b + j) - (b + i)"
    using assms by (subst (asm) mod_eq_dvd_iff_nat) simp_all
  then have "64 dvd j - i" by simp
  moreover have "0 < j - i" "j - i < 64" using assms by simp_all
  ultimately show False using nat_dvd_not_less by blast
qed

lemma queue_inv_end_slot:
  assumes "queue_inv q"
  shows "nat (if q_end q = int QUEUE_SIZE then 0 else q_end q)
           = (nat (q_begin q) + nat (current_load q)) mod QUEUE_SIZE"
proof -
  from assms have b: "0 \<le> q_begin q" and l: "0 \<le> current_load q"
    and e: "0 \<le> q_end q" "q_end q \<le> 64"
    and m: "(q_begin q + current_load q) mod 64 = q_end q mod 64"
    by (simp_all add: queue_inv_def QUEUE_SIZE_def)
  have "int ((nat (q_begin q) + nat (current_load q)) mod 64) = (q_begin q + current_load q) mod 64"
    using b l by (simp add: zmod_int)
  also have "\<dots> = (if q_end q = 64 then 0 else q_end q)"
    using m e by simp
  finally show ?thesis
    by (simp add: QUEUE_SIZE_def split: if_splits)
qed

lemma enque_inv:
  assumes inv: "queue_inv q" and room: "current_load q < int QUEUE_SIZE"
  shows "\<exists>q'. enque m q = Inr (True, q') \<and> queue_inv q'
           \<and> contents q' = contents q @ [m]
           \<and> current_load q' = current_load q + 1"
proof -
  define k where "k = (nat (q_begin q) + nat (current_load q)) mod QUEUE_SIZE"
  define q' where "q' = q\<lparr>messages := (messages q)[k := m],
      q_end := (if q_end q = int QUEUE_SIZE then 0 else q_end q) + 1,
      current_load := current_load q + 1\<rparr>"
  have slot: "nat (if q_end q = int QUEUE_SIZE then 0 else q_end q) = k"
    using queue_inv_end_slot [OF inv] by (simp add: k_def)
  have facts: "length (messages q) = 64" "0 \<le> q_begin q" "q_begin q < 64"
      "0 \<le> q_end q" "q_end q \<le> 64" "0 \<le> current_load q" "current_load q < 64"
      "(q_begin q + current_load q) mod 64 = q_end q mod 64"
    using inv room by (simp_all add: queue_inv_def QUEUE_SIZE_def)
  have k64: "k < 64" by (simp add: k_def QUEUE_SIZE_def)
  have run: "enque m q = Inr (True, q')"
    using facts slot by (auto simp: enque_def q'_def QUEUE_SIZE_def Let_def)
  have "(q_begin q + current_load q + 1) mod 64
          = ((if q_end q = 64 then 0 else q_end q) + 1) mod 64"
    using facts by (intro mod_add_cong) (simp_all split: if_splits)
  then have inv': "queue_inv q'"
    using facts by (simp add: queue_inv_def q'_def QUEUE_SIZE_def add.assoc)
  have old: "(messages q)[k := m] ! ((nat (q_begin q) + i) mod QUEUE_SIZE)
               = messages q ! ((nat (q_begin q) + i) mod QUEUE_SIZE)"
    if "i < nat (current_load q)" for i
  proof -
    have "nat (current_load q) < 64" using facts by simp
    from cyclic_slots_distinct [OF that this, of "nat (q_begin q)"]
    have "k \<noteq> (nat (q_begin q) + i) mod QUEUE_SIZE"
      by (simp add: k_def QUEUE_SIZE_def)
    then show ?thesis by simp
  qed
  have nl: "nat (current_load q + 1) = Suc (nat (current_load q))"
    using facts by simp
  have sel: "messages q' = (messages q)[k := m]" "q_begin q' = q_begin q"
      "current_load q' = current_load q + 1"
    by (simp_all add: q'_def)
  have "contents q' =
          map (\<lambda>i. (messages q)[k := m] ! ((nat (q_begin q) + i) mod QUEUE_SIZE))
            [0 ..< nat (current_load q)] @ [(messages q)[k := m] ! k]"
    by (simp add: contents_def sel nl k_def)
  moreover have "map (\<lambda>i. (messages q)[k := m] ! ((nat (q_begin q) + i) mod QUEUE_SIZE))
            [0 ..< nat (current_load q)] = contents q"
    unfolding contents_def by (rule map_cong [OF refl]) (simp add: old)
  moreover have "(messages q)[k := m] ! k = m"
    using k64 facts by simp
  ultimately have "contents q' = contents q @ [m]"
    by simp
  with run inv' show ?thesis by (auto simp: q'_def)
qed

lemma deque_inv:
  assumes inv: "queue_inv q" and some: "0 < current_load q"
  shows "\<exists>q'. deque q = Inr (Some (hd (contents q)), q') \<and> queue_inv q'
           \<and> contents q' = tl (contents q)
           \<and> current_load q' = current_load q - 1
           \<and> messages q' ! nat (q_begin q) = zero_message
           \<and> q_begin q' = (q_begin q + 1) mod int QUEUE_SIZE \<and> q_end q' = q_end q"
proof -
  define q' where "q' = q\<lparr>messages := (messages q)[nat (q_begin q) := zero_message],
      q_begin := (q_begin q + 1) mod int QUEUE_SIZE,
      current_load := current_load q - 1\<rparr>"
  have facts: "length (messages q) = 64" "0 \<le> q_begin q" "q_begin q < 64"
      "0 \<le> q_end q" "q_end q \<le> 64" "0 < current_load q" "current_load q \<le> 64"
      "(q_begin q + current_load q) mod 64 = q_end q mod 64"
    using inv some by (simp_all add: queue_inv_def QUEUE_SIZE_def)
  obtain n where n: "nat (current_load q) = Suc n"
    using facts by (cases "nat (current_load q)") auto
  have hd: "hd (contents q) = messages q ! nat (q_begin q)"
    using facts by (simp add: contents_def n upt_conv_Cons QUEUE_SIZE_def del: upt_Suc)
  have run: "deque q = Inr (Some (hd (contents q)), q')"
    using facts by (simp add: deque_def q'_def QUEUE_SIZE_def hd memset_one_message)
  have "((q_begin q + 1) mod 64 + (current_load q - 1)) mod 64 = q_end q mod 64"
    using facts by (simp add: mod_add_left_eq)
  then have inv': "queue_inv q'"
    using facts by (simp add: queue_inv_def q'_def QUEUE_SIZE_def)
  have nb: "nat ((q_begin q + 1) mod 64) = (nat (q_begin q) + 1) mod 64"
    using facts by (simp add: nat_mod_distrib nat_add_distrib)
  have nl: "nat (current_load q - 1) = n"
    using n by simp
  have tl: "contents q' = tl (contents q)"
  proof (rule nth_equalityI)
    show "length (contents q') = length (tl (contents q))"
      by (simp add: q'_def n nl)
  next
    fix i assume "i < length (contents q')"
    then have i: "i < n" by (simp add: q'_def nl)
    have "Suc i < 64" using i n facts by simp
    from cyclic_slots_distinct [OF _ this, of 0 "nat (q_begin q)"] facts
    have ne: "nat (q_begin q) \<noteq> (nat (q_begin q) + Suc i) mod 64"
      by simp
    have "contents q' ! i = messages q ! ((nat (q_begin q) + Suc i) mod 64)"
      using i ne by (simp add: contents_def q'_def nl nb QUEUE_SIZE_def mod_add_left_eq)
    also have "\<dots> = tl (contents q) ! i"
      using i by (simp add: nth_tl contents_def n QUEUE_SIZE_def del: upt_Suc)
    finally show "contents q' ! i = tl (contents q) ! i" .
  qed
  have z: "messages q' ! nat (q_begin q) = zero_message"
    using facts by (simp add: q'_def)
  from run inv' tl z show ?thesis
    by (auto simp: q'_def)
qed


lemma enque_full:
  "\<not> current_load q < int QUEUE_SIZE \<Longrightarrow> enque m q = Inr (False, q)"
  by (simp add: enque_def)

lemma deque_empty:
  "\<not> 0 < current_load q \<Longrightarrow> deque q = Inr (None, q)"
  by (simp add: deque_def)

lemma queue_step_refines:
  assumes "queue_inv q"
  shows "\<exists>q'. queue_step op q = Inr (fst (fifo_step op (contents q)), q')
           \<and> queue_inv q' \<and> contents q' = snd (fifo_step op (contents q))"
proof (cases op)
  case (Enque m)
  show ?thesis
  proof (cases "current_load q < int QUEUE_SIZE")
    case True
    then have "nat (current_load q) < QUEUE_SIZE" by (simp add: QUEUE_SIZE_def)
    with enque_inv [OF assms True, of m] show ?thesis
      by (auto simp: Enque queue_step_def fifo_step_def)
  next
    case False
    then have "\<not> nat (current_load q) < QUEUE_SIZE" by (simp add: QUEUE_SIZE_def)
    with assms enque_full [OF False, of m] show ?thesis
      by (auto simp: Enque queue_step_def fifo_step_def)
  qed
next
  case Deque
  show ?thesis
  proof (cases "0 < current_load q")
    case True
    then have "contents q \<noteq> []"
      by (metis length_contents length_0_conv zero_less_nat_eq less_nat_zero_code)
    with deque_inv [OF assms True] show ?thesis
      by (auto simp: Deque queue_step_def fifo_step_def split: list.splits)
  next
    case False
    then have "contents q = []" by (simp add: contents_def)
    with assms deque_empty [OF False] show ?thesis
      by (auto simp: Deque queue_step_def fifo_step_def)
  qed
qed

lemma run_queue_refines:
  "queue_inv q \<Longrightarrow>
     \<exists>q'. run_queue ops q = Inr (fst (fifo_run ops (contents q)), q')
        \<and> queue_inv q' \<and> contents q' = snd (fifo_run ops (contents q))"
proof (induction ops arbitrary: q)
  case Nil
  then show ?case by simp
next
  case (Cons op ops)
  from queue_step_refines [OF Cons.prems, of op] obtain q1 where
    s: "queue_step op q = Inr (fst (fifo_step op (contents q)), q1)" "queue_inv q1"
       "contents q1 = snd (fifo_step op (contents q))"
    by blast
  from Cons.IH [OF s(2)] obtain q2 where
    r: "run_queue ops q1 = Inr (fst (fifo_run ops (contents q1)), q2)" "queue_inv q2"
       "contents q2 = snd (fifo_run ops (contents q1))"
    by blast
  show ?case
    using s r by (simp add: split_beta)
qed

lemma fifo_run_load:
  "int (length (snd (fifo_run ops xs)))
     = int (length xs) + int (enqueued_count (fst (fifo_run ops xs)))
       - int (dequeued_count (fst (fifo_run ops xs)))"
proof (induction ops arbitrary: xs)
  case Nil
  then show ?case by (simp add: enqueued_count_def dequeued_count_def)
next
  case (Cons op ops)
  show ?case
  proof (cases op)
    case (Enque m)
    then show ?thesis
      using Cons.IH [of "xs @ [m]"] Cons.IH [of xs]
      by (simp add: fifo_step_def split_beta enqueued_count_def dequeued_count_def)
  next
    case Deque
    then show ?thesis
      using Cons.IH [of "tl xs"] Cons.IH [of "[]"]
      by (cases xs) (simp_all add: fifo_step_def split_beta enqueued_count_def dequeued_count_def)
  qed
qed

text \<open>
  C8. After any run of \<open>enque\<close> and \<open>deque\<close> calls on the initialised queue, the values
  the calls returned are those of the bounded first-in first-out list, so every
  \<open>deque\<close> handed out the oldest record that was stored and not yet taken. The next
  \<open>deque\<close> does the same: on a queue holding records it returns the oldest one, leaves
  the others in order and zeroes the slot it read; on the empty queue it returns
  nothing and the queue is what it was.
\<close>

theorem deque_fifo_order:
  assumes "length (messages q0) = QUEUE_SIZE"
  shows "\<exists>q. run_queue ops (init_queue q0) = Inr (fst (fifo_run ops []), q)
           \<and> contents q = snd (fifo_run ops [])
           \<and> (case snd (fifo_run ops []) of
                 [] \<Rightarrow> deque q = Inr (None, q)
               | x # xs \<Rightarrow>
                   (\<exists>q'. deque q = Inr (Some x, q') \<and> contents q' = xs
                      \<and> messages q' ! nat (q_begin q) = zero_message))"
proof -
  from run_queue_refines [OF queue_inv_init_queue [OF assms], of ops]
  obtain q where q: "run_queue ops (init_queue q0) = Inr (fst (fifo_run ops []), q)"
      "queue_inv q" "contents q = snd (fifo_run ops [])"
    by auto
  show ?thesis
  proof (cases "snd (fifo_run ops [])")
    case Nil
    with q(3) have "\<not> 0 < current_load q"
      by (metis length_contents list.size(3) zero_less_nat_eq less_irrefl)
    from deque_empty [OF this] q Nil show ?thesis by auto
  next
    case (Cons x xs)
    with q(3) have "0 < current_load q"
      by (metis length_contents length_greater_0_conv list.distinct(1) zero_less_nat_eq)
    from deque_inv [OF q(2) this] q Cons show ?thesis by auto
  qed
qed

text \<open>
  C10. After any run of \<open>enque\<close> and \<open>deque\<close> calls on the initialised queue no call has
  accessed the array out of bounds (the run ends in \<open>Inr\<close>), the load is between 0 and
  64, \<open>begin\<close> between 0 and 63, \<open>end\<close> between 0 and 64, the load is the number of
  records stored minus the number taken out, and the next \<open>enque\<close> stays within the
  array as well.
\<close>

theorem queue_counters_invariant:
  assumes "length (messages q0) = QUEUE_SIZE"
  shows "\<exists>rs q. run_queue ops (init_queue q0) = Inr (rs, q)
           \<and> 0 \<le> current_load q \<and> current_load q \<le> 64
           \<and> 0 \<le> q_begin q \<and> q_begin q < 64
           \<and> 0 \<le> q_end q \<and> q_end q \<le> 64
           \<and> current_load q = int (enqueued_count rs) - int (dequeued_count rs)
           \<and> (\<forall>message. enque message q \<noteq> Inl OutOfBounds)"
proof -
  from run_queue_refines [OF queue_inv_init_queue [OF assms], of ops]
  obtain q where q: "run_queue ops (init_queue q0) = Inr (fst (fifo_run ops []), q)"
      "queue_inv q" "contents q = snd (fifo_run ops [])"
    by auto
  have "int (length (contents q)) = current_load q"
    using q(2) by (simp add: queue_inv_def)
  with fifo_run_load [of ops "[]"] q(3)
  have load: "current_load q = int (enqueued_count (fst (fifo_run ops [])))
      - int (dequeued_count (fst (fifo_run ops [])))"
    by simp
  have safe: "enque message q \<noteq> Inl OutOfBounds" for message
  proof (cases "current_load q < int QUEUE_SIZE")
    case True
    from enque_inv [OF q(2) True, of message] show ?thesis by auto
  next
    case False
    from enque_full [OF False, of message] show ?thesis by simp
  qed
  from q load safe show ?thesis
    by (auto simp: queue_inv_def QUEUE_SIZE_def)
qed

theorem deque_fifo_order_witness:
  "length (messages queue_static) = QUEUE_SIZE
   \<and> (\<exists>q. run_queue [Enque ''a'', Enque ''b'', Deque] (init_queue queue_static)
              = Inr ([Enqued True, Enqued True, Dequed (Some ''a'')], q)
          \<and> contents q = [''b'']
          \<and> (\<exists>q'. deque q = Inr (Some ''b'', q') \<and> contents q' = []
                 \<and> messages q' ! nat (q_begin q) = zero_message))"
  using deque_fifo_order [of queue_static "[Enque ''a'', Enque ''b'', Deque]"]
  by (simp add: fifo_step_def queue_static_def QUEUE_SIZE_def)

theorem queue_counters_invariant_witness:
  "length (messages queue_static) = QUEUE_SIZE
   \<and> (\<exists>rs q. run_queue [Enque ''a'', Enque ''b'', Deque] (init_queue queue_static) = Inr (rs, q)
          \<and> 0 \<le> current_load q \<and> current_load q \<le> 64
          \<and> 0 \<le> q_begin q \<and> q_begin q < 64
          \<and> 0 \<le> q_end q \<and> q_end q \<le> 64
          \<and> current_load q = int (enqueued_count rs) - int (dequeued_count rs)
          \<and> (\<forall>message. enque message q \<noteq> Inl OutOfBounds))"
  using queue_counters_invariant [of queue_static "[Enque ''a'', Enque ''b'', Deque]"]
  by (simp add: queue_static_def QUEUE_SIZE_def)

lemma init_queue_effect:
  "init_queue q =
     q\<lparr>q_begin := 0, q_end := 0, current_load := 0,
       messages := map (\<lambda>j. if j < 4 then zero_message else messages q ! j)
                     [0 ..< length (messages q)]\<rparr>"
  by (simp add: init_queue_def memset_init_messages Let_def)


lemma init_queue_static:
  "init_queue queue_static = queue_static"
proof -
  have "map (\<lambda>j. if j < 4 then zero_message else messages queue_static ! j)
          [0 ..< length (messages queue_static)] = messages queue_static"
    by (rule nth_equalityI) (simp_all add: queue_static_def)
  then have "init_queue queue_static = queue_static\<lparr>q_begin := 0, q_end := 0,
      current_load := 0, messages := messages queue_static\<rparr>"
    by (simp add: init_queue_effect)
  then show ?thesis
    by (simp add: queue_static_def)
qed

text \<open>
  C7. When \<open>current_load\<close> equals the capacity of 64, \<open>enque\<close> returns false, the record
  is dropped and the queue (stored records, their order, \<open>begin\<close>, \<open>end\<close>, load) is
  exactly what it was.
\<close>

theorem enque_full_rejected:
  "current_load q = 64 \<Longrightarrow> enque message q = Inr (False, q)"
  by (simp add: enque_def QUEUE_SIZE_def)

theorem enque_full_rejected_witness:
  "current_load queue_full_example = 64
   \<and> enque ''dropped'' queue_full_example = Inr (False, queue_full_example)"
  using enque_full_rejected [of queue_full_example "''dropped''"]
  by (simp add: queue_full_example_def)

section \<open>Formatting and statements\<close>

lemma length_dec_digits:
  "n < 1000 \<Longrightarrow> length (dec_digits n) = (if n < 10 then 1 else if n < 100 then 2 else 3)"
  by (simp add: dec_digits.simps [of n] dec_digits.simps [of "n div 10"]
      dec_digits.simps [of "n div 10 div 10"] div_less_iff_less_mult)

lemma length_hex_digits:
  "n < 1048576 \<Longrightarrow> length (hex_digits n) =
     (if n < 16 then 1 else if n < 256 then 2 else if n < 4096 then 3
      else if n < 65536 then 4 else 5)"
  by (simp add: hex_digits.simps [of n] hex_digits.simps [of "n div 16"]
      hex_digits.simps [of "n div 16 div 16"] hex_digits.simps [of "n div 16 div 16 div 16"]
      hex_digits.simps [of "n div 16 div 16 div 16 div 16"] div_less_iff_less_mult)

lemma unat_8_bound: "unat (x :: 8 word) < 256"
  using unsigned_less [of x, where ?'a = nat] by simp

lemma length_fmt_02d [simp]:
  "n < 256 \<Longrightarrow> length (fmt_02d n) = (if n < 100 then 2 else 3)"
  by (simp add: fmt_02d_def pad_zero_def length_dec_digits)

lemma length_fmt_01d [simp]:
  "n < 256 \<Longrightarrow> length (fmt_01d n) = (if n < 10 then 1 else if n < 100 then 2 else 3)"
  by (simp add: fmt_01d_def pad_zero_def length_dec_digits)

lemma length_fmt_02x [simp]:
  "n < 1048576 \<Longrightarrow> length (fmt_02x n) =
     (if n < 256 then 2 else if n < 4096 then 3 else if n < 65536 then 4 else 5)"
  by (simp add: fmt_02x_def pad_zero_def length_hex_digits)

lemma length_fmt_01x [simp]:
  "n < 256 \<Longrightarrow> length (fmt_01x n) = (if n < 16 then 1 else 2)"
  by (simp add: fmt_01x_def pad_zero_def length_hex_digits)

lemma unat_port0_mask [simp]: "unat (ucast (x :: 8 word) :: 32 word) = unat x"
proof -
  have "unat x < 2 ^ 32"
    using unat_8_bound [of x] by simp
  then show ?thesis
    by (simp add: unsigned_ucast_eq take_bit_nat_eq_self)
qed

lemma length_fmt_02d_word [simp]:
  "length (fmt_02d (unat (x :: 8 word))) = (if unat x < 100 then 2 else 3)"
  by (rule length_fmt_02d [OF unat_8_bound])

lemma length_fmt_01d_word [simp]:
  "length (fmt_01d (unat (x :: 8 word))) = (if unat x < 10 then 1 else if unat x < 100 then 2 else 3)"
  by (rule length_fmt_01d [OF unat_8_bound])

lemma length_fmt_01d_bool [simp]: "length (fmt_01d (of_bool b)) = 1"
  by (cases b) simp_all

lemma length_fmt_02x_word [simp]: "length (fmt_02x (unat (x :: 8 word))) = 2"
  using length_fmt_02x [of "unat x"] unat_8_bound [of x] by simp

lemma length_fmt_01x_word [simp]:
  "length (fmt_01x (unat (x :: 8 word))) = (if unat x < 16 then 1 else 2)"
  by (rule length_fmt_01x [OF unat_8_bound])

lemma unat_port1_mask [simp]:
  "unat (push_bit PORT1_OFFSET (ucast (x :: 8 word)) :: 32 word) = unat x * 1024"
proof -
  have b: "unat x * 1024 < 2 ^ 32"
    using unat_8_bound [of x] by simp
  have "unat (push_bit 10 (ucast x :: 32 word)) = take_bit 32 (push_bit 10 (unat (ucast x :: 32 word)))"
    by (rule unsigned_push_bit_eq [where ?'b = 32, simplified])
  also have "\<dots> = take_bit 32 (unat x * 1024)"
    by (simp add: push_bit_eq_mult)
  also have "\<dots> = unat x * 1024"
    using b by (simp add: take_bit_nat_eq_self)
  finally show ?thesis
    by (simp only: PORT1_OFFSET_def)
qed

lemma length_fmt_02x_port1 [simp]:
  "length (fmt_02x (unat (x :: 8 word) * 1024)) =
     (if unat x * 1024 < 256 then 2 else if unat x * 1024 < 4096 then 3
      else if unat x * 1024 < 65536 then 4 else 5)"
proof -
  have "unat x * 1024 < 1048576"
    using unat_8_bound [of x] by linarith
  then show ?thesis by (rule length_fmt_02x)
qed

lemma enque_total:
  assumes "queue_inv q"
  shows "enque m q = Inr (current_load q < int QUEUE_SIZE, queue_after_enque m q)"
    and "queue_inv (queue_after_enque m q)"
    and "contents (queue_after_enque m q)
           = (if current_load q < int QUEUE_SIZE then contents q @ [m] else contents q)"
proof -
  show "enque m q = Inr (current_load q < int QUEUE_SIZE, queue_after_enque m q)"
    using enque_inv [OF assms, of m] enque_full [of q m]
    by (cases "current_load q < int QUEUE_SIZE") (auto simp: queue_after_enque_def)
  show "queue_inv (queue_after_enque m q)"
    using enque_inv [OF assms, of m] enque_full [of q m] assms
    by (cases "current_load q < int QUEUE_SIZE") (auto simp: queue_after_enque_def)
  show "contents (queue_after_enque m q)
           = (if current_load q < int QUEUE_SIZE then contents q @ [m] else contents q)"
    using enque_inv [OF assms, of m] enque_full [of q m]
    by (cases "current_load q < int QUEUE_SIZE") (auto simp: queue_after_enque_def)
qed

lemma hw_run [simp]:
  "hw c f = Inr (f\<lparr>dev := (dev f)\<lparr>hw_calls := hw_calls (dev f) @ [c]\<rparr>\<rparr>)"
  by (simp add: hw_def)

lemma sprintf_run [simp]:
  "length text < 64 \<Longrightarrow>
     sprintf text f = Inr (f\<lparr>rec := text @ NUL # drop (length text + 1) (rec f)\<rparr>)"
  by (simp add: sprintf_def MESSAGE_SIZE_def)

lemma enque_rec_run [simp]:
  "queue_inv (queue (dev f)) \<Longrightarrow>
     enque_rec f = Inr (f\<lparr>dev := (dev f)\<lparr>queue := queue_after_enque (rec f) (queue (dev f))\<rparr>\<rparr>)"
  by (simp add: enque_rec_def enque_total(1))

lemma cur_reg_in_range:
  "unat (reg_address (ctx (dev f))) < 128 \<Longrightarrow>
     cur_reg f = reg (ctx (dev f)) ! unat (reg_address (ctx (dev f)))"
  by (simp add: cur_reg_def context_byte_def REG_COUNT_def)

lemma store_reg_run [simp]:
  "i < 128 \<Longrightarrow>
     store_reg i v f =
       Inr (f\<lparr>dev := (dev f)\<lparr>ctx := (ctx (dev f))\<lparr>reg := (reg (ctx (dev f)))[i := v]\<rparr>\<rparr>\<rparr>)"
  by (simp add: store_reg_def REG_COUNT_def Let_def)

lemma raise_cmd_flag_run [simp]:
  "raise_cmd_flag f = Inr (f\<lparr>dev := (dev f)\<lparr>status := (status (dev f))\<lparr>flag_cmd := True\<rparr>\<rparr>\<rparr>)"
  by (simp add: raise_cmd_flag_def)

lemmas queue_inv_after_enque [simp] = enque_total(2)

lemma current_load_after_enque:
  assumes "queue_inv q"
  shows "current_load (queue_after_enque m q)
           = (if current_load q < int QUEUE_SIZE then current_load q + 1 else current_load q)"
  using enque_inv [OF assms, of m] enque_full [of q m]
  by (cases "current_load q < int QUEUE_SIZE") (auto simp: queue_after_enque_def)

lemma write_switch_frame:
  assumes "frame_ok f"
  shows "\<exists>f'. write_switch cmd f = Inr f' \<and> frame_ok f'
           \<and> ctx (dev f') = ctx (dev f) \<and> i2c_sent (dev f') = i2c_sent (dev f)
           \<and> stdout (dev f') = stdout (dev f)"
  using assms unfolding write_switch_def frame_ok_def machine_ok_def
  by (simp add: Let_def cur_reg_in_range)

section \<open>Properties of the handler\<close>

lemma set_reg_address_run [simp]:
  "set_reg_address v f = Inr (f\<lparr>dev := (dev f)\<lparr>ctx := (ctx (dev f))\<lparr>reg_address := v\<rparr>\<rparr>\<rparr>)"
  by (simp add: set_reg_address_def)

lemma set_reg_address_written_run [simp]:
  "set_reg_address_written b f =
     Inr (f\<lparr>dev := (dev f)\<lparr>ctx := (ctx (dev f))\<lparr>reg_address_written := b\<rparr>\<rparr>\<rparr>)"
  by (simp add: set_reg_address_written_def)

lemma handler_finish:
  "i2c_slave_handler uc env I2C_SLAVE_FINISH s
     = Inr (s\<lparr>ctx := (ctx s)\<lparr>reg_address_written := False\<rparr>\<rparr>)"
  by (simp add: i2c_slave_handler_def handler_body_def)

text \<open>
  C4. A transaction-finished event sets \<open>reg_address_written\<close> to false and changes
  nothing else: the selected address, the register cells, the status flags, the queue
  and the hardware are what they were, and no record is queued.
\<close>

theorem finish_resets_address_flag_only:
  "i2c_slave_handler uc env I2C_SLAVE_FINISH s
     = Inr (s\<lparr>ctx := (ctx s)\<lparr>reg_address_written := False\<rparr>\<rparr>)"
  unfolding i2c_slave_handler_def handler_body_def
  by (simp add: set_reg_address_written_def)

lemma handler_receive_address:
  "\<not> reg_address_written (ctx s) \<Longrightarrow>
     i2c_slave_handler uc env I2C_SLAVE_RECEIVE s
       = Inr (s\<lparr>ctx := (ctx s)\<lparr>reg_address := i2c_read_byte env,
                                 reg_address_written := True\<rparr>\<rparr>)"
  by (simp add: i2c_slave_handler_def handler_body_def)

text \<open>
  C5. Two address bytes, each received in the idle state with a transaction-finished
  between them: after the first the state is the initial one with the address selected;
  after the second it is the same state with the second address in place of the
  first. No cell, flag, queue slot or hardware call differs.
\<close>

theorem second_address_byte_replaces_address:
  assumes "\<not> reg_address_written (ctx s)"
  shows "run_events uc [receive e1 a1] s
           = Inr (s\<lparr>ctx := (ctx s)\<lparr>reg_address := a1, reg_address_written := True\<rparr>\<rparr>)
         \<and> run_events uc [receive e1 a1, finish e2, receive e3 a2] s
           = Inr (s\<lparr>ctx := (ctx s)\<lparr>reg_address := a2, reg_address_written := True\<rparr>\<rparr>)"
  using assms
  by (simp add: receive_def finish_def handler_receive_address handler_finish)

lemma handler_receive_data:
  assumes "reg_address_written (ctx s)" "unat (reg_address (ctx s)) < 128"
  shows "i2c_slave_handler uc env I2C_SLAVE_RECEIVE s = store_then_act env (i2c_read_byte env) s"
  using assms
  by (simp add: i2c_slave_handler_def handler_body_def store_then_act_def store_cur_def Let_def
      split: sum.splits)

lemma store_then_act_ok:
  assumes "machine_ok s" "unat (reg_address (ctx s)) < 128"
  shows "\<exists>s'. store_then_act env v s = Inr s' \<and> machine_ok s'
           \<and> ctx s' = (ctx s)\<lparr>reg := (reg (ctx s))[unat (reg_address (ctx s)) := v]\<rparr>
           \<and> i2c_sent s' = i2c_sent s \<and> stdout s' = stdout s"
proof -
  let ?stored = "s\<lparr>ctx := (ctx s)\<lparr>reg := (reg (ctx s))[unat (reg_address (ctx s)) := v]\<rparr>\<rparr>"
  have "frame_ok \<lparr>dev = ?stored, rec = stack_rec env\<rparr>"
    using assms by (simp add: frame_ok_def machine_ok_def)
  from write_switch_frame [OF this, of "reg_address (ctx s)"]
  show ?thesis
    by (auto simp: store_then_act_def Let_def frame_ok_def)
qed

lemma data_phase:
  assumes "machine_ok s" "reg_address_written (ctx s)" "unat (reg_address (ctx s)) < 128"
  shows "\<exists>s'. run_events uc (map (\<lambda>(e, v). receive e v) evs) s = Inr s'
           \<and> data_bytes evs s = Inr s' \<and> machine_ok s'
           \<and> ctx s' = (ctx s)\<lparr>reg := (if evs = [] then reg (ctx s)
                 else (reg (ctx s))[unat (reg_address (ctx s)) := snd (last evs)])\<rparr>
           \<and> i2c_sent s' = i2c_sent s"
  using assms
proof (induction evs arbitrary: s)
  case Nil
  then show ?case by simp
next
  case (Cons ev evs)
  obtain e v where ev: "ev = (e, v)" by (cases ev)
  from store_then_act_ok [OF Cons.prems(1,3), of e v] obtain s1 where
    s1: "store_then_act e v s = Inr s1" "machine_ok s1"
        "ctx s1 = (ctx s)\<lparr>reg := (reg (ctx s))[unat (reg_address (ctx s)) := v]\<rparr>"
        "i2c_sent s1 = i2c_sent s"
    by blast
  have h: "i2c_slave_handler uc (e\<lparr>i2c_read_byte := v\<rparr>) I2C_SLAVE_RECEIVE s = Inr s1"
    using handler_receive_data [OF Cons.prems(2,3), of uc "e\<lparr>i2c_read_byte := v\<rparr>"] s1(1)
    by (simp add: store_then_act_def)
  have "reg_address_written (ctx s1)" "unat (reg_address (ctx s1)) < 128"
    using Cons.prems s1(3) by simp_all
  from Cons.IH [OF s1(2) this] obtain s' where
    s': "run_events uc (map (\<lambda>(e, v). receive e v) evs) s1 = Inr s'"
        "data_bytes evs s1 = Inr s'" "machine_ok s'"
        "ctx s' = (ctx s1)\<lparr>reg := (if evs = [] then reg (ctx s1)
           else (reg (ctx s1))[unat (reg_address (ctx s1)) := snd (last evs)])\<rparr>"
        "i2c_sent s' = i2c_sent s1"
    by blast
  show ?case
    using h s1 s' by (simp add: ev receive_def)
qed

text \<open>
  Data bytes at an address below 128. An address byte below 128 followed by any number
  of data bytes in one transaction: every byte is handled as "store into the selected
  cell, then let the write command act on the state holding it"; at the end the
  selected address is still the one received, the register file differs from the
  initial one in that cell only, which holds the last byte, and nothing depends on what
  the cell held before.
\<close>

theorem data_bytes_overwrite_one_cell:
  assumes "machine_ok s" "\<not> reg_address_written (ctx s)" "unat a < 128"
  shows "\<exists>s'. run_events uc (receive e0 a # map (\<lambda>(e, v). receive e v) evs) s = Inr s'
           \<and> data_bytes evs (s\<lparr>ctx := (ctx s)\<lparr>reg_address := a,
                                                 reg_address_written := True\<rparr>\<rparr>) = Inr s'
           \<and> reg_address (ctx s') = a \<and> reg_address_written (ctx s')
           \<and> reg (ctx s') = (if evs = [] then reg (ctx s)
                               else (reg (ctx s))[unat a := snd (last evs)])
           \<and> (\<forall>x. evs \<noteq> [] \<longrightarrow>
                 run_events uc (receive e0 a # map (\<lambda>(e, v). receive e v) evs)
                   (s\<lparr>ctx := (ctx s)\<lparr>reg := (reg (ctx s))[unat a := x]\<rparr>\<rparr>) = Inr s')"
proof -
  let ?s1 = "s\<lparr>ctx := (ctx s)\<lparr>reg_address := a, reg_address_written := True\<rparr>\<rparr>"
  have first: "i2c_slave_handler uc (e0\<lparr>i2c_read_byte := a\<rparr>) I2C_SLAVE_RECEIVE s' = Inr
      (s'\<lparr>ctx := (ctx s')\<lparr>reg_address := a, reg_address_written := True\<rparr>\<rparr>)"
    if "\<not> reg_address_written (ctx s')" for s'
    using handler_receive_address [OF that, of uc "e0\<lparr>i2c_read_byte := a\<rparr>"] by simp
  have ok1: "machine_ok ?s1" "reg_address_written (ctx ?s1)" "unat (reg_address (ctx ?s1)) < 128"
    using assms by (simp_all add: machine_ok_def)
  from data_phase [OF ok1, of uc evs] obtain s' where
    s': "run_events uc (map (\<lambda>(e, v). receive e v) evs) ?s1 = Inr s'"
        "data_bytes evs ?s1 = Inr s'"
        "ctx s' = (ctx ?s1)\<lparr>reg := (if evs = [] then reg (ctx ?s1)
           else (reg (ctx ?s1))[unat (reg_address (ctx ?s1)) := snd (last evs)])\<rparr>"
    by blast
  have run: "run_events uc (receive e0 a # map (\<lambda>(e, v). receive e v) evs) s = Inr s'"
    using first [OF assms(2)] s'(1) by (simp add: receive_def)
  have indep: "run_events uc (receive e0 a # map (\<lambda>(e, v). receive e v) evs)
       (s\<lparr>ctx := (ctx s)\<lparr>reg := (reg (ctx s))[unat a := x]\<rparr>\<rparr>) = Inr s'"
    if ne: "evs \<noteq> []" for x
  proof -
    let ?sx = "s\<lparr>ctx := (ctx s)\<lparr>reg := (reg (ctx s))[unat a := x]\<rparr>\<rparr>"
    let ?sx1 = "?sx\<lparr>ctx := (ctx ?sx)\<lparr>reg_address := a, reg_address_written := True\<rparr>\<rparr>"
    obtain e v rest where evs: "evs = (e, v) # rest"
      using ne by (cases evs) auto
    have same: "store_then_act (e\<lparr>i2c_read_byte := v\<rparr>) v ?sx1
                  = store_then_act (e\<lparr>i2c_read_byte := v\<rparr>) v ?s1"
      by (simp add: store_then_act_def)
    have "i2c_slave_handler uc (e\<lparr>i2c_read_byte := v\<rparr>) I2C_SLAVE_RECEIVE ?sx1
            = i2c_slave_handler uc (e\<lparr>i2c_read_byte := v\<rparr>) I2C_SLAVE_RECEIVE ?s1"
      using assms(3) same
      by (simp add: handler_receive_data [of _ uc "e\<lparr>i2c_read_byte := v\<rparr>", simplified])
    then have "run_events uc (map (\<lambda>(e, v). receive e v) evs) ?sx1
                 = run_events uc (map (\<lambda>(e, v). receive e v) evs) ?s1"
      by (simp add: evs receive_def)
    moreover have "\<not> reg_address_written (ctx ?sx)"
      using assms(2) by simp
    ultimately show ?thesis
      using first [of ?sx] s'(1) by (simp add: receive_def)
  qed
  from run s'(2,3) indep show ?thesis
    by auto
qed

lemma i2c_write_reg_run [simp]:
  "unat (reg_address (ctx (dev f))) < 128 \<Longrightarrow>
     i2c_write_reg f = Inr (f\<lparr>dev := (dev f)\<lparr>i2c_sent := i2c_sent (dev f) @ [cur_reg f]\<rparr>\<rparr>)"
  by (simp add: i2c_write_reg_def CONTEXT_SIZE_def REG_COUNT_def)

lemma handler_request_plain:
  assumes "machine_ok s" "unat (reg_address (ctx s)) < 128"
    and "\<not> refreshed_on_read (i2c_add (ctx s)) (reg_address (ctx s))"
  shows "\<exists>s'. i2c_slave_handler uc env I2C_SLAVE_REQUEST s = Inr s' \<and> machine_ok s'
           \<and> ctx s' = ctx s
           \<and> i2c_sent s' = i2c_sent s @ [reg (ctx s) ! unat (reg_address (ctx s))]
           \<and> hw_calls s' = hw_calls s"
  using assms
  unfolding i2c_slave_handler_def handler_body_def read_switch_def machine_ok_def
    refreshed_on_read_def
  by (auto simp: Let_def cur_reg_in_range store_cur_def)

text \<open>
  C3, as amended. A value written to an address below 128 is returned by a read
  transaction at that address that follows, unless the address is one whose cell a
  read request recomputes (\<open>refreshed_on_read\<close>).
\<close>

theorem write_then_read_returns_value:
  assumes "machine_ok s" "\<not> reg_address_written (ctx s)" "unat a < 128"
    and "\<not> refreshed_on_read (i2c_add (ctx s)) a"
  shows "\<exists>s'. run_events uc [receive e1 a, receive e2 v, finish e3, receive e4 a, request e5] s
              = Inr s'
           \<and> i2c_sent s' = i2c_sent s @ [v]
           \<and> reg (ctx s') ! unat a = v"
proof -
  define s1 where "s1 = s\<lparr>ctx := (ctx s)\<lparr>reg_address := a, reg_address_written := True\<rparr>\<rparr>"
  have h1: "i2c_slave_handler uc (e1\<lparr>i2c_read_byte := a\<rparr>) I2C_SLAVE_RECEIVE s = Inr s1"
    using handler_receive_address [OF assms(2), of uc "e1\<lparr>i2c_read_byte := a\<rparr>"]
    by (simp add: s1_def)
  have ok1: "machine_ok s1" "reg_address_written (ctx s1)" "unat (reg_address (ctx s1)) < 128"
    using assms by (simp_all add: machine_ok_def s1_def)
  from store_then_act_ok [OF ok1(1,3), of "e2\<lparr>i2c_read_byte := v\<rparr>" v] obtain s2 where
    s2: "store_then_act (e2\<lparr>i2c_read_byte := v\<rparr>) v s1 = Inr s2" "machine_ok s2"
        "ctx s2 = (ctx s1)\<lparr>reg := (reg (ctx s1))[unat (reg_address (ctx s1)) := v]\<rparr>"
        "i2c_sent s2 = i2c_sent s1"
    by blast
  have h2: "i2c_slave_handler uc (e2\<lparr>i2c_read_byte := v\<rparr>) I2C_SLAVE_RECEIVE s1 = Inr s2"
    using handler_receive_data [OF ok1(2,3), of uc "e2\<lparr>i2c_read_byte := v\<rparr>"] s2(1) by simp
  define s3 where "s3 = s2\<lparr>ctx := (ctx s2)\<lparr>reg_address_written := False\<rparr>\<rparr>"
  have h3: "i2c_slave_handler uc e3 I2C_SLAVE_FINISH s2 = Inr s3"
    by (simp add: handler_finish s3_def)
  define s4 where "s4 = s3\<lparr>ctx := (ctx s3)\<lparr>reg_address := a, reg_address_written := True\<rparr>\<rparr>"
  have h4: "i2c_slave_handler uc (e4\<lparr>i2c_read_byte := a\<rparr>) I2C_SLAVE_RECEIVE s3 = Inr s4"
    using handler_receive_address [of s3 uc "e4\<lparr>i2c_read_byte := a\<rparr>"]
    by (simp add: s4_def s3_def)
  have ctx4: "ctx s4 = (ctx s)\<lparr>reg := (reg (ctx s))[unat a := v], reg_address := a,
      reg_address_written := True\<rparr>"
    by (simp add: s4_def s3_def s2(3) s1_def)
  have ok4: "machine_ok s4" "unat (reg_address (ctx s4)) < 128"
      "\<not> refreshed_on_read (i2c_add (ctx s4)) (reg_address (ctx s4))"
    using s2(2) assms by (simp_all add: machine_ok_def ctx4) (simp_all add: s4_def s3_def)
  from handler_request_plain [OF ok4, of uc e5] obtain s5 where
    s5: "i2c_slave_handler uc e5 I2C_SLAVE_REQUEST s4 = Inr s5" "ctx s5 = ctx s4"
        "i2c_sent s5 = i2c_sent s4 @ [reg (ctx s4) ! unat (reg_address (ctx s4))]"
    by blast
  have len: "unat a < length (reg (ctx s))"
    using assms by (simp add: machine_ok_def REG_COUNT_def)
  have "run_events uc [receive e1 a, receive e2 v, finish e3, receive e4 a, request e5] s = Inr s5"
    by (simp add: receive_def finish_def request_def h1 h2 h3 h4 s5(1))
  moreover have "i2c_sent s4 = i2c_sent s"
    by (simp add: s4_def s3_def s2(4) s1_def)
  then have "i2c_sent s5 = i2c_sent s @ [v]" "reg (ctx s5) ! unat a = v"
    using s5 len by (simp_all add: ctx4)
  ultimately show ?thesis by blast
qed

lemma queue_inv_static [simp]: "queue_inv queue_static"
  by (simp add: queue_inv_def queue_static_def QUEUE_SIZE_def)

lemma machine_ok_static [simp]: "machine_ok machine_static"
  by (simp add: machine_ok_def machine_static_def)

lemma contents_static [simp]: "contents queue_static = []"
  by (simp add: contents_def queue_static_def)

lemma c_str_terminated:
  "NUL \<notin> set str \<Longrightarrow> c_str (str @ NUL # rest) = str"
  by (induction str) (auto simp: c_str_def)

lemmas fmt_eval = fmt_02d_def fmt_01d_def fmt_02x_def fmt_01x_def pad_zero_def digit_char_def
  dec_digits.simps hex_digits.simps

lemma machine_ok_relay [simp]: "machine_ok machine_relay_example"
  by (simp add: machine_ok_def machine_relay_example_def machine_static_def REG_COUNT_def)

lemma relay_fields [simp]:
  "queue machine_relay_example = queue_static"
  "status machine_relay_example = status_clear"
  "hw_calls machine_relay_example = []"
  "reg (ctx machine_relay_example) = replicate 128 0"
  "i2c_add (ctx machine_relay_example) = 0x22"
  "reg_address_written (ctx machine_relay_example) = False"
  by (simp_all add: machine_relay_example_def machine_static_def REG_COUNT_def)

text \<open>
  The port-wide commands on a device without the port identity, in general: no hardware
  call, the byte stored (write commands) or the cell left alone (read commands), the
  rejection record handed to the queue, and the \<open>cmd\<close> flag raised, except by
  address 91, which leaves the flags as they are.
\<close>

lemma port_write_rejected:
  assumes "machine_ok s" "reg_address_written (ctx s)" "reg_address (ctx s) = cmd"
    and "cmd = 80 \<or> cmd = 81 \<or> cmd = 90 \<or> cmd = 91"
    and "i2c_add (ctx s) \<noteq> PICO_PORT_ADDRESS"
  shows "\<exists>s'. i2c_slave_handler uc env I2C_SLAVE_RECEIVE s = Inr s'
           \<and> hw_calls s' = hw_calls s
           \<and> reg (ctx s') = (reg (ctx s))[unat cmd := i2c_read_byte env]
           \<and> queue s' = queue_after_enque (rejection_record env cmd (i2c_add (ctx s))) (queue s)
           \<and> status s' = (if cmd = 91 then status s else (status s)\<lparr>flag_cmd := True\<rparr>)"
proof -
  have ok: "queue_inv (queue s)"
    using assms(1) by (simp add: machine_ok_def)
  from assms(4) show ?thesis
  proof (elim disjE)
    assume "cmd = 80"
    with assms(2,3,5) ok show ?thesis
      unfolding i2c_slave_handler_def handler_body_def write_switch_def
      by (simp add: Let_def cur_reg_in_range store_cur_def rejection_record_def rejection_text_def)
  next
    assume "cmd = 81"
    with assms(2,3,5) ok show ?thesis
      unfolding i2c_slave_handler_def handler_body_def write_switch_def
      by (simp add: Let_def cur_reg_in_range store_cur_def rejection_record_def rejection_text_def)
  next
    assume "cmd = 90"
    with assms(2,3,5) ok show ?thesis
      unfolding i2c_slave_handler_def handler_body_def write_switch_def
      by (simp add: Let_def cur_reg_in_range store_cur_def rejection_record_def rejection_text_def)
  next
    assume "cmd = 91"
    with assms(2,3,5) ok show ?thesis
      unfolding i2c_slave_handler_def handler_body_def write_switch_def
      by (simp add: Let_def cur_reg_in_range store_cur_def rejection_record_def rejection_text_def)
  qed
qed

lemma port_read_rejected:
  assumes "machine_ok s" "reg_address (ctx s) = cmd"
    and "cmd = 85 \<or> cmd = 95" "i2c_add (ctx s) \<noteq> PICO_PORT_ADDRESS"
  shows "\<exists>s'. i2c_slave_handler uc env I2C_SLAVE_REQUEST s = Inr s'
           \<and> hw_calls s' = hw_calls s
           \<and> reg (ctx s') = reg (ctx s)
           \<and> i2c_sent s' = i2c_sent s @ [reg (ctx s) ! unat cmd]
           \<and> status s' = (status s)\<lparr>flag_cmd := True\<rparr>
           \<and> queue s' =
                 queue_after_enque
                   (readback_text cmd (reg (ctx s) ! unat cmd) @ NUL
                      # drop (length (readback_text cmd (reg (ctx s) ! unat cmd)) + 1)
                          (rejection_record env cmd (i2c_add (ctx s))))
                   (queue_after_enque (rejection_record env cmd (i2c_add (ctx s))) (queue s))"
proof -
  have ok: "queue_inv (queue s)"
    using assms(1) by (simp add: machine_ok_def)
  from assms(3) show ?thesis
  proof (elim disjE)
    assume "cmd = 85"
    with assms(2,4) ok show ?thesis
      unfolding i2c_slave_handler_def handler_body_def read_switch_def
      by (simp add: Let_def cur_reg_in_range store_cur_def rejection_record_def rejection_text_def
          readback_text_def)
  next
    assume "cmd = 95"
    with assms(2,4) ok show ?thesis
      unfolding i2c_slave_handler_def handler_body_def read_switch_def
      by (simp add: Let_def cur_reg_in_range store_cur_def rejection_record_def rejection_text_def
          readback_text_def)
  qed
qed

text \<open>
  C1. On the device with identity \<open>0x22\<close>, a byte written to address 91 is stored,
  issues no hardware call and queues the rejection record, but the \<open>cmd\<close> flag stays
  clear; the same byte written to address 90 raises it.
\<close>

theorem port1_output_rejection_keeps_cmd_flag_clear:
  "\<not> isl port1_output_rejected_run
   \<and> flag_cmd (status (projr port1_output_rejected_run)) = False
   \<and> hw_calls (projr port1_output_rejected_run) = []
   \<and> reg (ctx (projr port1_output_rejected_run)) ! 91 = 0xFF
   \<and> map c_str (contents (queue (projr port1_output_rejected_run)))
         = [''Cmd 91, Not Valid for I2C Pico: 0x22,  '']
   \<and> \<not> isl port1_direction_rejected_run
   \<and> flag_cmd (status (projr port1_direction_rejected_run)) = True"
  by (simp add: port1_output_rejected_run_def port1_direction_rejected_run_def
      receive_def handler_receive_address handler_receive_data store_then_act_def
      write_switch_def Let_def cur_reg_in_range PICO_PORT_ADDRESS_def
      enque_total(3) QUEUE_SIZE_def queue_static_def [THEN arg_cong, of current_load]
      c_str_def status_clear_def fmt_eval NUL_def)

lemma static_fields [simp]:
  "queue machine_static = queue_static"
  "status machine_static = status_clear"
  "hw_calls machine_static = []"
  "i2c_sent machine_static = []"
  "reg (ctx machine_static) = replicate 128 0"
  "i2c_add (ctx machine_static) = 0"
  "reg_address_written (ctx machine_static) = False"
  by (simp_all add: machine_static_def REG_COUNT_def)

theorem second_address_byte_replaces_address_witness:
  "\<not> reg_address_written (ctx machine_static)
   \<and> run_events uc_example [receive env_idle 11] machine_static
       = Inr (machine_static\<lparr>ctx := (ctx machine_static)\<lparr>reg_address := 11,
                reg_address_written := True\<rparr>\<rparr>)
   \<and> run_events uc_example [receive env_idle 11, finish env_idle, receive env_idle 15]
         machine_static
       = Inr (machine_static\<lparr>ctx := (ctx machine_static)\<lparr>reg_address := 15,
                reg_address_written := True\<rparr>\<rparr>)"
proof -
  have idle: "\<not> reg_address_written (ctx machine_static)"
    by simp
  from second_address_byte_replaces_address [OF idle, of uc_example env_idle 11 env_idle env_idle 15]
    idle
  show ?thesis by simp
qed

lemma set_gpio_twice:
  "\<exists>s'. run_events uc_example [receive env_idle 11, receive env_idle 5, receive env_idle 7]
           machine_static = Inr s'
     \<and> hw_calls s' = [Gpio_put 5 True, Gpio_put 7 True]"
  by (simp add: receive_def handler_receive_address handler_receive_data store_then_act_def
      write_switch_def Let_def cur_reg_in_range)

theorem data_bytes_overwrite_one_cell_witness:
  "machine_ok machine_static \<and> \<not> reg_address_written (ctx machine_static)
   \<and> unat (11 :: 8 word) < 128
   \<and> (\<exists>s'. run_events uc_example
               [receive env_idle 11, receive env_idle 5, receive env_idle 7] machine_static
             = Inr s'
          \<and> reg_address (ctx s') = 11 \<and> reg_address_written (ctx s')
          \<and> reg (ctx s') = (replicate 128 0)[11 := 7]
          \<and> hw_calls s' = [Gpio_put 5 True, Gpio_put 7 True]
          \<and> (\<forall>x. run_events uc_example
                    [receive env_idle 11, receive env_idle 5, receive env_idle 7]
                    (machine_static\<lparr>ctx := (ctx machine_static)\<lparr>reg :=
                       (replicate 128 0)[11 := x]\<rparr>\<rparr>) = Inr s'))"
proof -
  have h: "machine_ok machine_static" "\<not> reg_address_written (ctx machine_static)"
      "unat (11 :: 8 word) < 128"
    by simp_all
  from data_bytes_overwrite_one_cell [OF h, of uc_example env_idle
      "[(env_idle, 5), (env_idle, 7)]"] set_gpio_twice h
  show ?thesis by auto
qed

theorem write_then_read_returns_value_witness:
  "machine_ok machine_static \<and> \<not> reg_address_written (ctx machine_static)
   \<and> unat (60 :: 8 word) < 128
   \<and> \<not> refreshed_on_read (i2c_add (ctx machine_static)) 60
   \<and> (\<exists>s'. run_events uc_example
               [receive env_idle 60, receive env_idle 7, finish env_idle, receive env_idle 60,
                request env_idle] machine_static = Inr s'
          \<and> i2c_sent s' = [7] \<and> reg (ctx s') ! 60 = 7)"
proof -
  have h: "machine_ok machine_static" "\<not> reg_address_written (ctx machine_static)"
      "unat (60 :: 8 word) < 128" "\<not> refreshed_on_read (i2c_add (ctx machine_static)) 60"
    by (simp_all add: refreshed_on_read_def)
  from write_then_read_returns_value [OF h, of uc_example env_idle env_idle 7 env_idle env_idle
      env_idle] h
  show ?thesis by simp
qed

lemma handler_request_status:
  assumes "machine_ok s" "reg_address (ctx s) = 100"
  shows "\<exists>s'. i2c_slave_handler uc env I2C_SLAVE_REQUEST s = Inr s'
           \<and> i2c_sent s' = i2c_sent s @ [all_flags (status s)] \<and> hw_calls s' = hw_calls s"
  using assms
  unfolding i2c_slave_handler_def handler_body_def read_switch_def machine_ok_def
  by (simp add: Let_def cur_reg_in_range store_cur_def REG_STATUS_def REG_COUNT_def)

lemma write_switch_status_address: "write_switch 100 f = Inr f"
  by (simp add: write_switch_def)

lemma status_cell_read_back:
  assumes "machine_ok s" "\<not> reg_address_written (ctx s)"
  shows "\<exists>s'. run_events uc [receive e1 100, receive e2 v, finish e3, receive e4 100, request e5] s
              = Inr s'
           \<and> i2c_sent s' = i2c_sent s @ [all_flags (status s)] \<and> hw_calls s' = hw_calls s"
proof -
  define s1 where "s1 = s\<lparr>ctx := (ctx s)\<lparr>reg_address := 100, reg_address_written := True\<rparr>\<rparr>"
  have h1: "i2c_slave_handler uc (e1\<lparr>i2c_read_byte := 100\<rparr>) I2C_SLAVE_RECEIVE s = Inr s1"
    using handler_receive_address [OF assms(2), of uc "e1\<lparr>i2c_read_byte := 100\<rparr>"]
    by (simp add: s1_def)
  define s2 where "s2 = s1\<lparr>ctx := (ctx s1)\<lparr>reg := (reg (ctx s1))[100 := v]\<rparr>\<rparr>"
  have h2: "i2c_slave_handler uc (e2\<lparr>i2c_read_byte := v\<rparr>) I2C_SLAVE_RECEIVE s1 = Inr s2"
    using handler_receive_data [of s1 uc "e2\<lparr>i2c_read_byte := v\<rparr>"]
    by (simp add: s1_def s2_def store_then_act_def write_switch_status_address)
  define s3 where "s3 = s2\<lparr>ctx := (ctx s2)\<lparr>reg_address_written := False\<rparr>\<rparr>"
  have h3: "i2c_slave_handler uc e3 I2C_SLAVE_FINISH s2 = Inr s3"
    by (simp add: handler_finish s3_def)
  define s4 where "s4 = s3\<lparr>ctx := (ctx s3)\<lparr>reg_address := 100, reg_address_written := True\<rparr>\<rparr>"
  have h4: "i2c_slave_handler uc (e4\<lparr>i2c_read_byte := 100\<rparr>) I2C_SLAVE_RECEIVE s3 = Inr s4"
    using handler_receive_address [of s3 uc "e4\<lparr>i2c_read_byte := 100\<rparr>"]
    by (simp add: s4_def s3_def)
  have ok4: "machine_ok s4" "reg_address (ctx s4) = 100"
    using assms(1) by (simp_all add: machine_ok_def s4_def s3_def s2_def s1_def)
  from handler_request_status [OF ok4, of uc e5] obtain s5 where
    s5: "i2c_slave_handler uc e5 I2C_SLAVE_REQUEST s4 = Inr s5"
        "i2c_sent s5 = i2c_sent s4 @ [all_flags (status s4)]" "hw_calls s5 = hw_calls s4"
    by blast
  have "run_events uc [receive e1 100, receive e2 v, finish e3, receive e4 100, request e5] s
          = Inr s5"
    by (simp add: receive_def finish_def request_def h1 h2 h3 h4 s5(1))
  moreover have "i2c_sent s5 = i2c_sent s @ [all_flags (status s)]" "hw_calls s5 = hw_calls s"
    using s5 by (simp_all add: s4_def s3_def s2_def s1_def)
  ultimately show ?thesis by blast
qed

text \<open>
  C3 as stated fails at address 100, which is no write command and causes no hardware
  call: the value \<open>0x55\<close> written there is not returned, the read request sends
  the flags byte, 0.
\<close>

theorem written_status_cell_not_read_back:
  "\<not> isl status_readback_run
   \<and> i2c_sent (projr status_readback_run) = [0]
   \<and> i2c_sent (projr status_readback_run) \<noteq> [0x55]
   \<and> hw_calls (projr status_readback_run) = []"
proof -
  from status_cell_read_back [of machine_static uc_example env_idle env_idle "0x55" env_idle
      env_idle env_idle]
  obtain s' where r: "status_readback_run = Inr s'"
    and s': "i2c_sent s' = [all_flags status_clear]" "hw_calls s' = []"
    by (auto simp: status_readback_run_def)
  have "all_flags status_clear = 0"
    by (simp add: all_flags_def status_clear_def)
  with s' show ?thesis
    unfolding r by simp
qed

text \<open>
  Stores behind the register file. With address 131 selected a data byte replaces the
  device identity, and a read request at 131 sends the identity.
\<close>

lemma data_byte_overwrites_identity:
  assumes "reg_address_written (ctx s)" "reg_address (ctx s) = 131"
  shows "i2c_slave_handler uc env I2C_SLAVE_RECEIVE s
           = Inr (s\<lparr>ctx := (ctx s)\<lparr>i2c_add := i2c_read_byte env\<rparr>\<rparr>)"
  using assms
  by (simp add: i2c_slave_handler_def handler_body_def store_cur_def store_reg_def
      REG_COUNT_def Let_def write_switch_def)

lemma request_sends_identity:
  assumes "queue_inv (queue s)" "reg_address (ctx s) = 131"
  shows "\<exists>s'. i2c_slave_handler uc env I2C_SLAVE_REQUEST s = Inr s'
           \<and> i2c_sent s' = i2c_sent s @ [i2c_add (ctx s)] \<and> ctx s' = ctx s"
  using assms
  by (simp add: i2c_slave_handler_def handler_body_def read_switch_def Let_def
      i2c_write_reg_def CONTEXT_SIZE_def REG_COUNT_def cur_reg_def context_byte_def)

lemma fmt_overrun_values [simp]:
  "fmt_02d 0 = ''00''" "fmt_02d 5 = ''05''" "fmt_02d 11 = ''11''"
  by (simp_all add: fmt_02d_def pad_zero_def digit_char_def dec_digits.simps)

text \<open>
  C6. With address 128 selected, the first data byte is stored over
  \<open>reg_address\<close>, the member behind the array: the two data bytes 11 and 5 do not go to
  one cell. The first makes 11 the selected address and runs command 11 on the old
  content of cell 11; the second is stored in cell 11 and runs command 11 again. At the
  end the selected address is 11, not 128, and the byte 11 is in no register cell.
\<close>

theorem data_bytes_at_address_128_change_the_address:
  "\<not> isl address_overrun_run
   \<and> reg_address (ctx (projr address_overrun_run)) = 11
   \<and> reg (ctx (projr address_overrun_run)) = (replicate 128 0)[11 := 5]
   \<and> hw_calls (projr address_overrun_run) = [Gpio_put 0 True, Gpio_put 5 True]
   \<and> map c_str (contents (queue (projr address_overrun_run)))
         = [''Cmd 11, Set Gpio: 00 '', ''Cmd 11, Set Gpio: 05 '']"
  by (simp add: address_overrun_run_def receive_def handler_receive_address
      i2c_slave_handler_def handler_body_def store_cur_def store_reg_def REG_COUNT_def
      write_switch_def Let_def cur_reg_in_range enque_total(3) current_load_after_enque
      QUEUE_SIZE_def queue_static_def [THEN arg_cong, of current_load] c_str_def NUL_def)

section \<open>Properties of start-up\<close>

lemma print_line_run [simp]:
  "print_line str f = Inr (f\<lparr>dev := (dev f)\<lparr>stdout := stdout (dev f) @ [str]\<rparr>\<rparr>)"
  by (simp add: print_line_def)

lemma drain_queue_prints:
  assumes "queue_inv (queue (dev f))" "contents (queue (dev f)) = ms"
    and "\<forall>m \<in> set ms. NUL \<in> set m"
  shows "\<exists>f'. drain_queue uc f = Inr f' \<and> contents (queue (dev f')) = []
           \<and> queue_inv (queue (dev f'))
           \<and> stdout (dev f') = stdout (dev f)
                @ map (\<lambda>m. ''Pico '' @ fmt_02x (unat (i2c_add (ctx (dev f)))) @ '': '' @ c_str m) ms
           \<and> ctx (dev f') = ctx (dev f) \<and> status (dev f') = status (dev f)
           \<and> i2c_sent (dev f') = i2c_sent (dev f)"
  using assms
proof (induction ms arbitrary: f)
  case Nil
  then have "\<not> 0 < current_load (queue (dev f))"
    by (metis length_contents list.size(3) zero_less_nat_eq less_irrefl)
  from deque_empty [OF this] Nil show ?case
    by (subst drain_queue.simps) simp
next
  case (Cons m ms)
  then have "0 < current_load (queue (dev f))"
    by (metis length_contents length_greater_0_conv list.distinct(1) zero_less_nat_eq)
  from deque_inv [OF Cons.prems(1) this] Cons.prems(2) obtain q' where
    q': "deque (queue (dev f)) = Inr (Some m, q')" "queue_inv q'" "contents q' = ms"
    by auto
  define f1 where "f1 = f\<lparr>rec := m, dev := (dev f)\<lparr>queue := q',
      hw_calls := hw_calls (dev f) @ [Gpio_put (PICO_DEFAULT_LED_PIN uc) False],
      stdout := stdout (dev f) @ [''Pico '' @ fmt_02x (unat (i2c_add (ctx (dev f)))) @ '': '' @ c_str m],
      hw_calls := hw_calls (dev f) @ [Gpio_put (PICO_DEFAULT_LED_PIN uc) False, Sleep_ms 50,
        Gpio_put (PICO_DEFAULT_LED_PIN uc) True]\<rparr>\<rparr>"
  have step: "drain_queue uc f = drain_queue uc f1"
    using q'(1) Cons.prems(3)
    by (subst drain_queue.simps) (simp add: f1_def)
  have "queue_inv (queue (dev f1))" "contents (queue (dev f1)) = ms" "\<forall>m \<in> set ms. NUL \<in> set m"
    using q' Cons.prems(3) by (simp_all add: f1_def)
  from Cons.IH [OF this] obtain f' where
    "drain_queue uc f1 = Inr f'" "contents (queue (dev f')) = []" "queue_inv (queue (dev f'))"
    "stdout (dev f') = stdout (dev f1)
       @ map (\<lambda>m. ''Pico '' @ fmt_02x (unat (i2c_add (ctx (dev f1)))) @ '': '' @ c_str m) ms"
    "ctx (dev f') = ctx (dev f1)" "status (dev f') = status (dev f1)"
    "i2c_sent (dev f') = i2c_sent (dev f1)"
    by blast
  then show ?case
    using step by (simp add: f1_def)
qed

lemma current_load_init_queue [simp]: "current_load (init_queue q) = 0"
  by (simp add: init_queue_effect)

lemma fmt_boot_address [simp]: "fmt_02x 32 = ''20''"
  by (simp add: fmt_eval)

lemma main_boot_unrecognised:
  assumes "length (messages (queue s)) = QUEUE_SIZE"
    and "\<not> gpio_get env I2C_SLAVE_ADDRESS_IO0" "\<not> gpio_get env I2C_SLAVE_ADDRESS_IO1"
  shows "\<exists>l f r1 r2. main_boot uc env s = Inr (l, f)
           \<and> i2c_add (ctx (dev f)) = 0x20
           \<and> flag_cfg (status (dev f))
           \<and> hw_calls (dev f) = hw_calls s @ boot_calls uc 0x20
           \<and> contents (queue (dev f)) = [r1, r2]
           \<and> c_str r1 = ''Pico Slave boot for I2C address 0x20''
           \<and> c_str r2 = ''I2C address not supported for device at address  0x20''
           \<and> NUL \<in> set r1 \<and> NUL \<in> set r2
           \<and> queue_inv (queue (dev f))
           \<and> ctr l = 0 \<and> mess l = 0
           \<and> pulse l = (if watchdog_caused_reboot env then 50 else 200)"
  using assms
  by (simp add: main_boot_def read_i2c_address_def setup_slave_def Let_def
      I2C_OFFSET_ADDRESS_def queue_inv_init_queue enque_total(3) current_load_after_enque
      QUEUE_SIZE_def c_str_def NUL_def status_clear_def boot_calls_def)

lemma main_boot_recognised:
  assumes "length (messages (queue s)) = QUEUE_SIZE"
    and "gpio_get env I2C_SLAVE_ADDRESS_IO0 \<or> gpio_get env I2C_SLAVE_ADDRESS_IO1"
  shows "\<exists>l f. main_boot uc env s = Inr (l, f)
           \<and> i2c_add (ctx (dev f)) \<in> {0x21, 0x22, 0x23}"
proof (cases "gpio_get env I2C_SLAVE_ADDRESS_IO0")
  case io0: True
  show ?thesis
  proof (cases "gpio_get env I2C_SLAVE_ADDRESS_IO1")
    case True
    with io0 assms(1) show ?thesis
      by (simp add: main_boot_def read_i2c_address_def setup_slave_def Let_def
          I2C_OFFSET_ADDRESS_def queue_inv_init_queue)
  next
    case False
    with io0 assms(1) show ?thesis
      by (simp add: main_boot_def read_i2c_address_def setup_slave_def Let_def
          I2C_OFFSET_ADDRESS_def queue_inv_init_queue)
  qed
next
  case io0: False
  with assms(2) have "gpio_get env I2C_SLAVE_ADDRESS_IO1" by simp
  with io0 assms(1) show ?thesis
    by (simp add: main_boot_def read_i2c_address_def setup_slave_def Let_def
        I2C_OFFSET_ADDRESS_def queue_inv_init_queue)
qed

lemma main_loop_first_pass:
  assumes "queue_inv (queue (dev f))" "contents (queue (dev f)) = ms"
    and "\<forall>m \<in> set ms. NUL \<in> set m"
    and "ctr l = 0" "mess l = 0" "pulse l = 50 \<or> pulse l = 200"
  shows "\<exists>l' f'. main_loop_body uc (l, f) = Inr (l', f') \<and> contents (queue (dev f')) = []
           \<and> stdout (dev f') = stdout (dev f)
                @ map (\<lambda>m. ''Pico '' @ fmt_02x (unat (i2c_add (ctx (dev f)))) @ '': '' @ c_str m) ms"
proof -
  define f1 where "f1 = f\<lparr>dev := (dev f)\<lparr>hw_calls := hw_calls (dev f) @ [Watchdog_update,
      Sleep_ms 10]\<rparr>\<rparr>"
  have "queue_inv (queue (dev f1))" "contents (queue (dev f1)) = ms"
    using assms(1,2) by (simp_all add: f1_def)
  from drain_queue_prints [OF this assms(3), of uc] obtain f' where
    f': "drain_queue uc f1 = Inr f'" "contents (queue (dev f')) = []"
        "stdout (dev f') = stdout (dev f1)
           @ map (\<lambda>m. ''Pico '' @ fmt_02x (unat (i2c_add (ctx (dev f1)))) @ '': '' @ c_str m) ms"
    by blast
  have "main_loop_body uc (l, f) = Inr (l\<lparr>ctr := 1, mess := 1\<rparr>, f')"
    using assms(4,5,6) f'(1)
    by (auto simp: main_loop_body_def Let_def f1_def)
  with f'(2,3) show ?thesis
    by (simp add: f1_def)
qed

text \<open>
  C9. Start-up reaches the background loop whatever the straps read. When the resolved
  identity is none of \<open>0x21\<close>, \<open>0x22\<close>, \<open>0x23\<close>, the configuration-error flag is
  set, the driver calls are those of \<open>boot_calls\<close> (no \<open>Gpio_set_dir_masked\<close>, no
  \<open>Gpio_put_masked\<close>; \<open>I2c_slave_init\<close> with the resolved address is among them), the
  queue holds the boot record and the "not supported" record, and the first pass of the
  loop takes both out and prints them.
\<close>

theorem boot_with_unrecognised_identity:
  assumes "length (messages (queue s)) = QUEUE_SIZE"
  shows "\<exists>l f. main_boot uc env s = Inr (l, f)
           \<and> (i2c_add (ctx (dev f)) \<notin> {0x21, 0x22, 0x23} \<longrightarrow>
                flag_cfg (status (dev f))
              \<and> hw_calls (dev f) = hw_calls s @ boot_calls uc (i2c_add (ctx (dev f)))
              \<and> map c_str (contents (queue (dev f)))
                    = [''Pico Slave boot for I2C address 0x20'',
                       ''I2C address not supported for device at address  0x20'']
              \<and> (\<exists>l' f'. main_loop_body uc (l, f) = Inr (l', f')
                     \<and> contents (queue (dev f')) = []
                     \<and> stdout (dev f') = stdout (dev f)
                          @ [''Pico 20: Pico Slave boot for I2C address 0x20'',
                             ''Pico 20: I2C address not supported for device at address  0x20'']))"
proof (cases "gpio_get env I2C_SLAVE_ADDRESS_IO0 \<or> gpio_get env I2C_SLAVE_ADDRESS_IO1")
  case True
  from main_boot_recognised [OF assms True, of uc] show ?thesis
    by blast
next
  case False
  then have pins: "\<not> gpio_get env I2C_SLAVE_ADDRESS_IO0" "\<not> gpio_get env I2C_SLAVE_ADDRESS_IO1"
    by simp_all
  from main_boot_unrecognised [OF assms pins, of uc] obtain l f r1 r2 where
    b: "main_boot uc env s = Inr (l, f)" "i2c_add (ctx (dev f)) = 0x20"
       "flag_cfg (status (dev f))" "hw_calls (dev f) = hw_calls s @ boot_calls uc 0x20"
       "contents (queue (dev f)) = [r1, r2]"
       "c_str r1 = ''Pico Slave boot for I2C address 0x20''"
       "c_str r2 = ''I2C address not supported for device at address  0x20''"
       "NUL \<in> set r1" "NUL \<in> set r2" "queue_inv (queue (dev f))"
       "ctr l = 0" "mess l = 0" "pulse l = (if watchdog_caused_reboot env then 50 else 200)"
    by blast
  have "\<forall>m \<in> set [r1, r2]. NUL \<in> set m" "pulse l = 50 \<or> pulse l = 200"
    using b by simp_all
  from main_loop_first_pass [OF b(10) b(5) this(1) b(11) b(12) this(2), of uc]
  obtain l' f' where
    "main_loop_body uc (l, f) = Inr (l', f')" "contents (queue (dev f')) = []"
    "stdout (dev f') = stdout (dev f)
       @ map (\<lambda>m. ''Pico '' @ fmt_02x (unat (i2c_add (ctx (dev f)))) @ '': '' @ c_str m) [r1, r2]"
    by blast
  with b show ?thesis
    by simp
qed

theorem boot_with_unrecognised_identity_witness:
  "length (messages (queue machine_static)) = QUEUE_SIZE
   \<and> (\<exists>l f. main_boot uc_example env_idle machine_static = Inr (l, f)
          \<and> i2c_add (ctx (dev f)) = 0x20
          \<and> flag_cfg (status (dev f))
          \<and> hw_calls (dev f) = boot_calls uc_example 0x20
          \<and> map c_str (contents (queue (dev f)))
                = [''Pico Slave boot for I2C address 0x20'',
                   ''I2C address not supported for device at address  0x20'']
          \<and> (\<exists>l' f'. main_loop_body uc_example (l, f) = Inr (l', f')
                 \<and> contents (queue (dev f')) = []
                 \<and> stdout (dev f') = stdout (dev f)
                      @ [''Pico 20: Pico Slave boot for I2C address 0x20'',
                         ''Pico 20: I2C address not supported for device at address  0x20'']))"
proof -
  have len: "length (messages (queue machine_static)) = QUEUE_SIZE"
    by (simp add: queue_static_def)
  have addr: "i2c_add (ctx (dev f)) = 0x20"
    if "main_boot uc_example env_idle machine_static = Inr (l, f)" for l f
    using main_boot_unrecognised [OF len, of env_idle uc_example] that
    by (auto simp: env_idle_def)
  from boot_with_unrecognised_identity [OF len, of uc_example env_idle] obtain l f where
    "main_boot uc_example env_idle machine_static = Inr (l, f)"
    "i2c_add (ctx (dev f)) \<notin> {0x21, 0x22, 0x23} \<longrightarrow>
                flag_cfg (status (dev f))
              \<and> hw_calls (dev f) = hw_calls machine_static @ boot_calls uc_example (i2c_add (ctx (dev f)))
              \<and> map c_str (contents (queue (dev f)))
                    = [''Pico Slave boot for I2C address 0x20'',
                       ''I2C address not supported for device at address  0x20'']
              \<and> (\<exists>l' f'. main_loop_body uc_example (l, f) = Inr (l', f')
                     \<and> contents (queue (dev f')) = []
                     \<and> stdout (dev f') = stdout (dev f)
                          @ [''Pico 20: Pico Slave boot for I2C address 0x20'',
                             ''Pico 20: I2C address not supported for device at address  0x20''])"
    by (elim exE conjE)
  with addr [OF this(1)] len show ?thesis
    by auto
qed

lemma boot_calls_leave_port_pins:
  "Gpio_set_dir_masked m v \<notin> set (boot_calls uc addr)
   \<and> Gpio_put_masked m v \<notin> set (boot_calls uc addr)
   \<and> I2c_slave_init addr \<in> set (boot_calls uc addr)"
  by (simp add: boot_calls_def)

text \<open>
  The specification's example: address 11 and data 5 drive pin 5 high and queue one
  record.
\<close>

lemma set_gpio_end_to_end:
  "\<exists>s'. run_events uc_example [receive env_idle 11, receive env_idle 5] machine_static = Inr s'
     \<and> hw_calls s' = [Gpio_put 5 True]
     \<and> map c_str (contents (queue s')) = [''Cmd 11, Set Gpio: 05 '']
     \<and> reg (ctx s') ! 11 = 5"
  by (simp add: receive_def handler_receive_address handler_receive_data store_then_act_def
      write_switch_def Let_def cur_reg_in_range enque_total(3) QUEUE_SIZE_def
      queue_static_def [THEN arg_cong, of current_load] c_str_def NUL_def)

end
